theory Spec2Isabelle
  imports Main
begin

section \<open>Text, paths and Python's string operations\<close>

text \<open>
  A file is the list of its bytes; \<open>char\<close> is a byte, so \<open>string\<close> serves both for
  the text the reader sees and for the bytes the codec sees. Text is taken to be ASCII
  with lines ending in a newline: the separators, the newline and the white space that
  \<open>str.strip()\<close> removes are single bytes.
\<close>

type_synonym bytes = string
type_synonym path = string

definition NL :: char where
  "NL = CHR 0x0A"

definition TAB :: char where
  "TAB = CHR 0x09"

text \<open>\<open>str.isspace\<close> on ASCII: code points 9 to 13, 28 to 31 and the blank.\<close>

definition is_space :: "char \<Rightarrow> bool" where
  "is_space c = (c \<in> set [CHR 0x09, CHR 0x0A, CHR 0x0B, CHR 0x0C, CHR 0x0D,
                             CHR 0x1C, CHR 0x1D, CHR 0x1E, CHR 0x1F, CHR 0x20])"

text \<open>\<open>s.strip()\<close>: white space removed at both ends.\<close>

definition strip :: "string \<Rightarrow> string" where
  "strip s = rev (dropWhile is_space (rev (dropWhile is_space s)))"

text \<open>\<open>s.strip('\n')\<close>: newlines removed at both ends, leading ones included.\<close>

definition strip_nl :: "string \<Rightarrow> string" where
  "strip_nl s = rev (dropWhile (\<lambda>c. c = NL) (rev (dropWhile (\<lambda>c. c = NL) s)))"

text \<open>\<open>s.split(sep)\<close> for a separator of one character; \<open>''.split(sep) == ['']\<close>.\<close>

fun split_on :: "char \<Rightarrow> string \<Rightarrow> string list" where
  "split_on s [] = [[]]"
| "split_on s (c # cs) =
     (if c = s then [] # split_on s cs
      else (case split_on s cs of
              [] \<Rightarrow> [[c]]
            | w # ws \<Rightarrow> (c # w) # ws))"

text \<open>\<open>s.count(c)\<close> for one character.\<close>

definition count_char :: "char \<Rightarrow> string \<Rightarrow> nat" where
  "count_char c s = length (filter (\<lambda>x. x = c) s)"

text \<open>\<open>s.startswith(p)\<close> and \<open>s.endswith(p)\<close>.\<close>

definition startswith :: "string \<Rightarrow> string \<Rightarrow> bool" where
  "startswith s p = (take (length p) s = p)"

definition endswith :: "string \<Rightarrow> string \<Rightarrow> bool" where
  "endswith s p = (length p \<le> length s \<and> drop (length s - length p) s = p)"

text \<open>\<open>str(i)\<close> for a natural number, as the f-string \<open>f"col_{i}"\<close> needs it.\<close>

definition digit_char :: "nat \<Rightarrow> char" where
  "digit_char d = char_of (48 + d)"

fun str_nat :: "nat \<Rightarrow> string" where
  "str_nat n = (if n < 10 then [digit_char n] else str_nat (n div 10) @ [digit_char (n mod 10)])"

declare str_nat.simps [simp del]

text \<open>\<open>[f"col_{i}" for i in range(n)]\<close>.\<close>

definition col_names :: "nat \<Rightarrow> string list" where
  "col_names n = map (\<lambda>i. ''col_'' @ str_nat i) [0..<n]"

text \<open>
  \<open>f.readline()\<close> on the unread rest of a text file: the line with its newline, or the
  rest of the file when no newline follows, or the empty string at the end of the file.
  The result is the line and the new unread rest.
\<close>

fun readline :: "string \<Rightarrow> string \<times> string" where
  "readline [] = ([], [])"
| "readline (c # cs) =
     (if c = NL then ([c], cs)
      else (case readline cs of (l, r) \<Rightarrow> (c # l, r)))"

section \<open>Errors and the log\<close>

text \<open>
  The exceptions the pipeline raises itself, and \<open>LibraryError\<close> for one raised inside
  pandas, pyarrow or zstandard (named by its class). Messages of \<open>ValueError\<close> are
  given in English.
\<close>

datatype error =
    ValueError string
  | UnboundLocalError string
  | StopIteration
  | FileNotFoundError path
  | ZeroDivisionError
  | LibraryError string

text \<open>
  One constructor for each logging call of the source, carrying the values its
  f-string interpolates. The rendered compression ratio (a float) is left out of
  \<open>Compress_done\<close>, the elapsed times out of \<open>File_time\<close>.
\<close>

datatype log_entry =
    Parse_failed path error
  | Dynamic_columns
  | Switch_separator char
  | Stable_columns nat
  | Schema_initialised
  | Chunk_written nat
  | Columnar_done path
  | Columnar_failed error
  | Compress_done nat
  | Compress_failed path path error
  | Decompress_done path path
  | Decompress_failed path error
  | Export_done path
  | Export_failed path path error
  | Processing string
  | File_compressed path
  | File_time string
  | File_failed string error
  | File_restored path
  | Restore_failed string error

type_synonym log = "log_entry list"

type_synonym fs = "path \<rightharpoonup> bytes"

section \<open>Delimiter and schema inference (\<open>read_file_data_in_chunks\<close>)\<close>

text \<open>
  The \<open>if/elif\<close> chain on the file type at the head of the function: the separator the
  type implies, or \<open>ValueError\<close> for an unknown type. (The quote and escape characters
  set beside it are the same in every branch.)
\<close>

definition type_hint_sep :: "string \<Rightarrow> error + char" where
  "type_hint_sep file_type =
     (if file_type = ''tbl'' then Inr (CHR ''|'')
      else if file_type = ''csv'' then Inr (CHR '','')
      else if file_type = ''txt'' then Inr TAB
      else Inl (ValueError (''Unsupported file type: '' @ file_type)))"

text \<open>
  \<open>sep = '|' if file_path == 'tbl' else ','\<close>: the assignment that follows the first
  \<open>readline\<close> and replaces the separator of the chain above. It compares the whole
  path with \<open>'tbl'\<close>.
\<close>

definition default_sep :: "path \<Rightarrow> char" where
  "default_sep file_path = (if file_path = ''tbl'' then CHR ''|'' else CHR '','')"

text \<open>
  \<open>[f.readline() for _ in range(n) if f.readline()]\<close>: each round reads one line for
  the condition and, when that line is not empty, a second line as the element.
\<close>

fun preview :: "nat \<Rightarrow> string \<Rightarrow> string list \<times> string" where
  "preview 0 f = ([], f)"
| "preview (Suc n) f =
     (case readline f of (c, f1) \<Rightarrow>
        if c \<noteq> [] then
          (case readline f1 of (l, f2) \<Rightarrow>
             (case preview n f2 of (ls, f3) \<Rightarrow> (l # ls, f3)))
        else preview n f1)"

text \<open>
  \<open>[line.strip() for line in preview_lines if line.strip() and not line.startswith("#")]\<close>
\<close>

definition valid_lines_of :: "string list \<Rightarrow> string list" where
  "valid_lines_of preview_lines =
     map strip (filter (\<lambda>line. strip line \<noteq> [] \<and> \<not> startswith line ''#'') preview_lines)"

text \<open>\<open>[len(line.split(sep)) for line in valid_lines]\<close>\<close>

definition column_counts_of :: "char \<Rightarrow> string list \<Rightarrow> nat list" where
  "column_counts_of sep valid_lines = map (\<lambda>line. length (split_on sep line)) valid_lines"

text \<open>
  A \<open>Counter\<close> keeps its keys in insertion order; \<open>counter_add\<close> is
  \<open>counter[k] += n\<close>, which inserts a missing key at the end.
\<close>

fun counter_add :: "(char \<times> nat) list \<Rightarrow> char \<Rightarrow> nat \<Rightarrow> (char \<times> nat) list" where
  "counter_add [] k n = [(k, n)]"
| "counter_add ((k', m) # rest) k n =
     (if k' = k then (k', m + n) # rest else (k', m) # counter_add rest k n)"

definition possible_seps :: "char list" where
  "possible_seps = [CHR ''|'', CHR '','', TAB]"

text \<open>
  The two nested loops
  \<open>for line in valid_lines: for s in possible_seps: sep_counter[s] += line.count(s)\<close>.
\<close>

definition count_line :: "(char \<times> nat) list \<Rightarrow> string \<Rightarrow> (char \<times> nat) list" where
  "count_line counter line = foldl (\<lambda>c s. counter_add c s (count_char s line)) counter possible_seps"

definition sep_counter_of :: "string list \<Rightarrow> (char \<times> nat) list" where
  "sep_counter_of valid_lines = foldl count_line [] valid_lines"

text \<open>
  \<open>counter.most_common(1)\<close> is \<open>max\<close> over the items by count: the first item with
  the greatest count, or nothing for an empty counter.
\<close>

fun first_max :: "('a \<times> nat) \<Rightarrow> ('a \<times> nat) list \<Rightarrow> ('a \<times> nat)" where
  "first_max best [] = best"
| "first_max best (x # xs) = first_max (if snd best < snd x then x else best) xs"

definition most_common1 :: "('a \<times> nat) list \<Rightarrow> ('a \<times> nat) option" where
  "most_common1 items = (case items of [] \<Rightarrow> None | x # xs \<Rightarrow> Some (first_max x xs))"

text \<open>
  \<open>set(column_counts)\<close> as CPython builds and iterates it, since \<open>max\<close> below takes
  the first of several equally frequent counts in that order. The set is a hash table
  of 8 slots at first; a count is its own hash (counts are far below the modulus of
  the hash of integers). A key is looked for from slot \<open>hash & mask\<close>: that slot and,
  where the table has room for them, the nine after it; if none is free or holds the
  key, \<open>perturb >>= 5\<close> and \<open>i = (i * 5 + 1 + perturb) & mask\<close>. The search has an empty
  slot to find, as a table is never more than three fifths full; the model gives it as
  many rounds as it can need (\<open>perturb\<close> is 0 after 13, and the recurrence then visits
  every slot) and has no result if they run out.
\<close>

fun find_slot ::
  "nat \<Rightarrow> (nat option \<Rightarrow> bool) \<Rightarrow> nat option list \<Rightarrow> nat \<Rightarrow> nat \<Rightarrow> nat option" where
  "find_slot 0 stop table i perturb = None"
| "find_slot (Suc rounds) stop table i perturb =
     (let mask = length table - 1;
          probes = (if i + 9 \<le> mask then 9 else 0)
      in (case filter (\<lambda>j. stop (table ! j)) [i ..< i + probes + 1] of
            j # js \<Rightarrow> Some j
          | [] \<Rightarrow>
              find_slot rounds stop table
                ((i * 5 + 1 + perturb div 32) mod length table) (perturb div 32)))"

text \<open>\<open>set_insert_clean\<close>: the key goes into the first empty slot of its probe sequence.\<close>

definition set_insert_clean :: "nat option list \<Rightarrow> nat \<Rightarrow> nat option list option" where
  "set_insert_clean table key =
     (case find_slot (14 + length table) (\<lambda>entry. entry = None) table
             (key mod length table) key of
        None \<Rightarrow> None
      | Some j \<Rightarrow> Some (table[j := Some key]))"

text \<open>\<open>newsize = PySet_MINSIZE; while (newsize <= minused) newsize <<= 1;\<close>\<close>

function new_size :: "nat \<Rightarrow> nat \<Rightarrow> nat" where
  "new_size newsize minused =
     (if 0 < newsize \<and> newsize \<le> minused then new_size (2 * newsize) minused else newsize)"
  by pat_completeness auto
termination
  by (relation "measure (\<lambda>(newsize, minused). Suc minused - newsize)") auto

declare new_size.simps [simp del]

text \<open>\<open>set_table_resize\<close>: the keys are inserted into the new table in the order of the
  old table's slots.\<close>

definition set_table_resize :: "nat option list \<Rightarrow> nat \<Rightarrow> nat option list option" where
  "set_table_resize table minused =
     foldl (\<lambda>acc entry.
              case acc of
                None \<Rightarrow> None
              | Some newtable \<Rightarrow>
                  (case entry of
                     None \<Rightarrow> Some newtable
                   | Some key \<Rightarrow> set_insert_clean newtable key))
           (Some (replicate (new_size 8 minused) None)) table"

text \<open>
  \<open>set_add_entry\<close>: a key already in the table changes nothing; a new key is stored,
  and the table is rebuilt at four times the number of its keys (twice, for more than
  50000 keys) when \<open>fill * 5 >= mask * 3\<close>.
\<close>

definition set_add_entry :: "nat option list \<Rightarrow> nat \<Rightarrow> nat option list option" where
  "set_add_entry table key =
     (case find_slot (14 + length table) (\<lambda>entry. entry = None \<or> entry = Some key) table
             (key mod length table) key of
        None \<Rightarrow> None
      | Some j \<Rightarrow>
          if table ! j = Some key then Some table
          else
            (let table1 = table[j := Some key];
                 fill = length (filter (\<lambda>entry. entry \<noteq> None) table1);
                 mask = length table1 - 1
             in if fill * 5 < mask * 3 then Some table1
                else set_table_resize table1 (if 50000 < fill then fill * 2 else fill * 4)))"

text \<open>\<open>list(set(xs))\<close>: the keys in the order of the table's slots.\<close>

definition set_order :: "nat list \<Rightarrow> nat list option" where
  "set_order xs =
     map_option (\<lambda>table. concat (map (\<lambda>entry. case entry of None \<Rightarrow> [] | Some key \<Rightarrow> [key]) table))
       (foldl (\<lambda>acc key. case acc of None \<Rightarrow> None | Some table \<Rightarrow> set_add_entry table key)
              (Some (replicate 8 None)) xs)"

text \<open>
  \<open>max(set(column_counts), key=column_counts.count)\<close>: the first count, in the
  iteration order of the set, that no other count occurs more often than. There is no
  result for an empty list, where \<open>max\<close> raises.
\<close>

definition modal_count :: "nat list \<Rightarrow> nat option" where
  "modal_count column_counts =
     (case set_order column_counts of
        None \<Rightarrow> None
      | Some counts \<Rightarrow>
          map_option fst
            (most_common1 (map (\<lambda>c. (c, length (filter (\<lambda>x. x = c) column_counts))) counts)))"

text \<open>
  The body of the \<open>with open(file_path) as f\<close> block, up to the column names: the
  separator and the names handed to pandas, or the exception raised, and the log. A
  local that was never assigned is \<open>UnboundLocalError\<close> where it is read:
  \<open>num_columns\<close> is assigned only in the branch that replaces the separator.
  (\<open>expected_columns\<close>, the field count of the first line, is computed and not used.)
\<close>

definition infer_schema :: "fs \<Rightarrow> log \<Rightarrow> path \<Rightarrow> (error + char \<times> string list) \<times> log" where
  "infer_schema files lg file_path =
     (case files file_path of
        None \<Rightarrow> (Inl (FileNotFoundError file_path), lg)
      | Some text \<Rightarrow>
          (case readline text of (line0, f1) \<Rightarrow>
             let first_line = strip line0;
                 sep = default_sep file_path;
                 expected_columns = length (split_on sep first_line)
             in (case preview 20 f1 of (preview_lines, f2) \<Rightarrow>
                   if preview_lines = [] then (Inl (ValueError ''empty file''), lg)
                   else
                     let valid_lines = valid_lines_of preview_lines
                     in if valid_lines = [] then (Inl (ValueError ''no valid data lines''), lg)
                        else
                          let column_counts = column_counts_of sep valid_lines;
                              lg1 = (if 1 < length (remdups column_counts)
                                     then lg @ [Dynamic_columns] else lg)
                          in (case most_common1 (sep_counter_of valid_lines) of
                                None \<Rightarrow> (Inl (LibraryError ''IndexError''), lg1)
                              | Some (detected_sep, n) \<Rightarrow>
                                  if detected_sep \<noteq> sep then
                                    (case modal_count (column_counts_of detected_sep valid_lines) of
                                       None \<Rightarrow> (Inl (ValueError ''max() of an empty set''), lg1 @ [Switch_separator detected_sep])
                                     | Some num_columns \<Rightarrow>
                                         (Inr (detected_sep, col_names num_columns),
                                          lg1 @ [Switch_separator detected_sep, Stable_columns num_columns]))
                                  else (Inl (UnboundLocalError ''num_columns''), lg1)))))"

section \<open>Data frames, Arrow schemas and the columnar container\<close>

text \<open>
  A pandas data frame: its columns (name and dtype, in order) and its rows, a missing
  value (\<open>NaN\<close>) being \<open>None\<close>. Two dtypes occur: the categorical one that
  \<open>read_csv(dtype='category')\<close> produces, and plain text.
\<close>

datatype dtype = Category | Object

type_synonym cell = "string option"

record dataframe =
  df_columns :: "(string \<times> dtype) list"
  df_rows :: "cell list list"

datatype arrow_type = Arrow_dictionary | Arrow_string

record field =
  f_name :: string
  f_type :: arrow_type
  f_metadata :: "(string \<times> string) list"

record schema =
  sch_fields :: "field list"
  sch_metadata :: "(string \<times> string) list"

text \<open>
  A Parquet file as its writer has left it: the schema given to \<open>ParquetWriter\<close>, the
  row groups written so far, and whether \<open>close()\<close> has written the footer.
\<close>

record parquet_file =
  pq_schema :: schema
  pq_row_groups :: "cell list list list"
  pq_closed :: bool

text \<open>
  What the libraries compute and the repository does not: the chunk iterator of
  \<open>pd.read_csv\<close> for a file's text, a separator and column names (the call may raise, and
  so may each \<open>next\<close>: an \<open>Inl\<close> item), the JSON that pyarrow stores under the schema
  key \<open>pandas\<close>, the bytes of a Parquet file and their reading by \<open>pq.ParquetFile\<close>, the
  record batches of \<open>iter_batches\<close> (each as its rows), the Zstandard stream compressor,
  and the stream decompressor: the bytes it delivers for an archive and the error it
  ends with, if any. Every function of the pipeline takes them as its first argument.
\<close>

record libs =
  read_csv :: "bytes \<Rightarrow> char \<Rightarrow> string list \<Rightarrow> error + (error + dataframe) list"
  pandas_metadata :: "dataframe \<Rightarrow> string"
  parquet_bytes :: "parquet_file \<Rightarrow> bytes"
  parquet_open :: "bytes \<Rightarrow> error + parquet_file"
  iter_batches :: "parquet_file \<Rightarrow> nat \<Rightarrow> cell list list list"
  zstd_compress :: "bytes \<Rightarrow> bytes"
  zstd_stream_reader :: "bytes \<Rightarrow> bytes \<times> error option"

text \<open>
  \<open>read_file_data_in_chunks(file_path, file_type)\<close> (\<open>data_reader.py\<close>, and the
  definition in force in \<open>main.py\<close>): the type check raises outside the \<open>try\<close>;
  everything raised inside is logged and raised again.
\<close>

definition read_file_data_in_chunks ::
  "libs \<Rightarrow> fs \<Rightarrow> log \<Rightarrow> path \<Rightarrow> string \<Rightarrow> (error + (error + dataframe) list) \<times> log" where
  "read_file_data_in_chunks L files lg file_path file_type =
     (case type_hint_sep file_type of
        Inl e \<Rightarrow> (Inl e, lg)
      | Inr hint \<Rightarrow>
          (case infer_schema files lg file_path of
             (Inl e, lg1) \<Rightarrow> (Inl e, lg1 @ [Parse_failed file_path e])
           | (Inr (sep, column_names), lg1) \<Rightarrow>
               (case files file_path of
                  None \<Rightarrow> (Inl (FileNotFoundError file_path),
                            lg1 @ [Parse_failed file_path (FileNotFoundError file_path)])
                | Some text \<Rightarrow>
                    (case read_csv L text sep column_names of
                       Inl e \<Rightarrow> (Inl e, lg1 @ [Parse_failed file_path e])
                     | Inr chunk_iterator \<Rightarrow> (Inr chunk_iterator, lg1)))))"

subsection \<open>Row to columnar (\<open>convert_to_columnar_in_chunks\<close>)\<close>

text \<open>\<open>pa.Schema.from_pandas(df, preserve_index=False)\<close>: one field for each column, and
  the schema metadata pyarrow derives from the frame, under the one key \<open>pandas\<close>.\<close>

definition arrow_type_of :: "dtype \<Rightarrow> arrow_type" where
  "arrow_type_of t = (case t of Category \<Rightarrow> Arrow_dictionary | Object \<Rightarrow> Arrow_string)"

definition schema_from_pandas :: "libs \<Rightarrow> dataframe \<Rightarrow> schema" where
  "schema_from_pandas L df =
     \<lparr>sch_fields = map (\<lambda>(n, t). \<lparr>f_name = n, f_type = arrow_type_of t, f_metadata = []\<rparr>)
                       (df_columns df),
      sch_metadata = [(''pandas'', pandas_metadata L df)]\<rparr>"

text \<open>\<open>schema.with_metadata(md)\<close> replaces the schema's metadata.\<close>

definition with_metadata :: "schema \<Rightarrow> (string \<times> string) list \<Rightarrow> schema" where
  "with_metadata sch md = sch\<lparr>sch_metadata := md\<rparr>"

text \<open>\<open>schema.get_field_index(name)\<close>: the index of the one field of that name, and
  no index (-1) when the name is absent or occurs twice.\<close>

definition get_field_index :: "schema \<Rightarrow> string \<Rightarrow> nat option" where
  "get_field_index sch name =
     (case filter (\<lambda>i. f_name (sch_fields sch ! i) = name) [0..<length (sch_fields sch)] of
        [i] \<Rightarrow> Some i
      | _ \<Rightarrow> None)"

text \<open>
  The loop \<open>for field in schema: if pa.types.is_string(field.type): ...\<close> over the fields
  of the schema as it was when the loop began; \<open>schema.set\<close> at index -1 is refused by
  Arrow.
\<close>

fun hint_fields :: "field list \<Rightarrow> schema \<Rightarrow> error + schema" where
  "hint_fields [] sch = Inr sch"
| "hint_fields (f # rest) sch =
     (if f_type f = Arrow_string then
        (case get_field_index sch (f_name f) of
           None \<Rightarrow> Inl (LibraryError ''ArrowInvalid'')
         | Some i \<Rightarrow>
             hint_fields rest
               (sch\<lparr>sch_fields := (sch_fields sch)[i := f\<lparr>f_metadata := [(''compression'', ''ZSTD'')]\<rparr>]\<rparr>))
      else hint_fields rest sch)"

text \<open>\<open>df.columns = [f"col_{i}" for i in range(df.shape[1])]\<close>\<close>

definition rename_columns :: "dataframe \<Rightarrow> dataframe" where
  "rename_columns df =
     df\<lparr>df_columns := zip (col_names (length (df_columns df))) (map snd (df_columns df))\<rparr>"

text \<open>
  The statements from \<open>schema = pa.Schema.from_pandas(first_chunk, ...)\<close> to the second
  such assignment, which follows the renaming of the columns: the schema the writer is
  then created with.
\<close>

definition writer_schema :: "libs \<Rightarrow> dataframe \<Rightarrow> string \<Rightarrow> error + schema" where
  "writer_schema L first_chunk file_type =
     (let schema = schema_from_pandas L first_chunk;
          schema = with_metadata schema [(''original_extension'', file_type)]
      in (case hint_fields (sch_fields schema) schema of
            Inl e \<Rightarrow> Inl e
          | Inr schema \<Rightarrow>
              (let first_chunk = rename_columns first_chunk;
                   schema = schema_from_pandas L first_chunk
               in Inr schema)))"

text \<open>
  \<open>parquet_writer.write_table(table)\<close> for \<open>table = pa.Table.from_pandas(chunk)\<close>: the
  table's fields must be the writer's (metadata aside), else \<open>ValueError\<close>; the rows
  become one more row group.
\<close>

definition schema_shape :: "schema \<Rightarrow> (string \<times> arrow_type) list" where
  "schema_shape sch = map (\<lambda>f. (f_name f, f_type f)) (sch_fields sch)"

definition write_table :: "libs \<Rightarrow> parquet_file \<Rightarrow> dataframe \<Rightarrow> error + parquet_file" where
  "write_table L pf chunk =
     (if schema_shape (schema_from_pandas L chunk) = schema_shape (pq_schema pf)
      then Inr (pf\<lparr>pq_row_groups := pq_row_groups pf @ [df_rows chunk]\<rparr>)
      else Inl (ValueError ''Table schema does not match schema used to create file''))"

text \<open>The loop \<open>for chunk in chunk_iterator\<close> after the first chunk.\<close>

fun write_chunks ::
  "libs \<Rightarrow> path \<Rightarrow> parquet_file \<Rightarrow> fs \<Rightarrow> log \<Rightarrow> (error + dataframe) list
     \<Rightarrow> (error + parquet_file) \<times> fs \<times> log" where
  "write_chunks L output_file pf files lg [] = (Inr pf, files, lg)"
| "write_chunks L output_file pf files lg (Inl e # rest) = (Inl e, files, lg)"
| "write_chunks L output_file pf files lg (Inr chunk # rest) =
     (let chunk = rename_columns chunk
      in (case write_table L pf chunk of
            Inl e \<Rightarrow> (Inl e, files, lg)
          | Inr pf' \<Rightarrow>
              write_chunks L output_file pf' (files(output_file \<mapsto> parquet_bytes L pf'))
                (lg @ [Chunk_written (length (df_rows chunk))]) rest))"

text \<open>
  The body of the \<open>try\<close>: the result, the files and the log as they are when the body
  ends or raises. The writer creates the output file when it is constructed.
\<close>

definition columnar_body ::
  "libs \<Rightarrow> fs \<Rightarrow> log \<Rightarrow> (error + dataframe) list \<Rightarrow> path \<Rightarrow> string
     \<Rightarrow> (error + unit) \<times> fs \<times> log" where
  "columnar_body L files lg chunk_iterator output_file file_type =
     (case chunk_iterator of
        [] \<Rightarrow> (Inl StopIteration, files, lg)
      | Inl e # rest \<Rightarrow> (Inl e, files, lg)
      | Inr first_chunk # rest \<Rightarrow>
          (case writer_schema L first_chunk file_type of
             Inl e \<Rightarrow> (Inl e, files, lg)
           | Inr schema \<Rightarrow>
               (let first_chunk = rename_columns first_chunk;
                    pf = \<lparr>pq_schema = schema, pq_row_groups = [], pq_closed = False\<rparr>;
                    files1 = files(output_file \<mapsto> parquet_bytes L pf)
                in (case write_table L pf first_chunk of
                      Inl e \<Rightarrow> (Inl e, files1, lg)
                    | Inr pf1 \<Rightarrow>
                        (case write_chunks L output_file pf1
                                (files1(output_file \<mapsto> parquet_bytes L pf1))
                                (lg @ [Schema_initialised]) rest of
                           (Inl e, files2, lg2) \<Rightarrow> (Inl e, files2, lg2)
                         | (Inr pf2, files2, lg2) \<Rightarrow>
                             (Inr (),
                              files2(output_file \<mapsto> parquet_bytes L (pf2\<lparr>pq_closed := True\<rparr>)),
                              lg2 @ [Columnar_done output_file]))))))"

text \<open>\<open>parquet_converter.py\<close>: \<open>except Exception as e: logging.error(...); raise\<close>.\<close>

definition convert_to_columnar_in_chunks ::
  "libs \<Rightarrow> fs \<Rightarrow> log \<Rightarrow> (error + dataframe) list \<Rightarrow> path \<Rightarrow> string
     \<Rightarrow> (error + unit) \<times> fs \<times> log" where
  "convert_to_columnar_in_chunks L files lg chunk_iterator output_file file_type =
     (case columnar_body L files lg chunk_iterator output_file file_type of
        (Inl e, files1, lg1) \<Rightarrow> (Inl e, files1, lg1 @ [Columnar_failed e])
      | (Inr u, files1, lg1) \<Rightarrow> (Inr u, files1, lg1))"

text \<open>
  The definition in force in \<open>main.py\<close>: \<open>except Exception as e: logging.error(...)\<close>
  and no \<open>raise\<close>; the function returns normally.
\<close>

definition convert_to_columnar_in_chunks_main ::
  "libs \<Rightarrow> fs \<Rightarrow> log \<Rightarrow> (error + dataframe) list \<Rightarrow> path \<Rightarrow> string
     \<Rightarrow> (error + unit) \<times> fs \<times> log" where
  "convert_to_columnar_in_chunks_main L files lg chunk_iterator output_file file_type =
     (case columnar_body L files lg chunk_iterator output_file file_type of
        (Inl e, files1, lg1) \<Rightarrow> (Inr (), files1, lg1 @ [Columnar_failed e])
      | (Inr u, files1, lg1) \<Rightarrow> (Inr u, files1, lg1))"

subsection \<open>Columnar to row (\<open>convert_parquet_to_text_in_chunks\<close>)\<close>

text \<open>
  \<open>df.to_csv(sep=sep, header=False, index=False, lineterminator='\n')\<close>, which pandas
  hands to Python's \<open>csv.writer\<close> with minimal quoting: a missing value is the empty
  string; a field holding the separator, a double quote, a line feed or a carriage
  return is put into double quotes, its own quotes doubled; a row of one empty field is
  written as two quotes; every row ends with the line terminator.
\<close>

definition DQ :: char where
  "DQ = CHR 0x22"

definition cell_text :: "cell \<Rightarrow> string" where
  "cell_text c = (case c of None \<Rightarrow> [] | Some s \<Rightarrow> s)"

definition CR :: char where
  "CR = CHR 0x0D"

definition csv_field :: "char \<Rightarrow> string \<Rightarrow> string" where
  "csv_field sep s =
     (if list_ex (\<lambda>c. c = sep \<or> c = DQ \<or> c = NL \<or> c = CR) s
      then DQ # concat (map (\<lambda>c. if c = DQ then [DQ, DQ] else [c]) s) @ [DQ]
      else s)"

fun join_fields :: "char \<Rightarrow> string list \<Rightarrow> string" where
  "join_fields sep [] = []"
| "join_fields sep [x] = x"
| "join_fields sep (x # y # rest) = x @ sep # join_fields sep (y # rest)"

definition render_row :: "char \<Rightarrow> cell list \<Rightarrow> string" where
  "render_row sep row =
     (if map cell_text row = [[]] then [DQ, DQ]
      else join_fields sep (map (\<lambda>c. csv_field sep (cell_text c)) row))"

definition to_csv :: "char \<Rightarrow> cell list list \<Rightarrow> string" where
  "to_csv sep batch = concat (map (\<lambda>row. render_row sep row @ [NL]) batch)"

text \<open>The separator of the target type, or \<open>ValueError\<close>.\<close>

definition export_sep :: "string \<Rightarrow> error + char" where
  "export_sep file_type =
     (if file_type = ''tbl'' then Inr (CHR ''|'')
      else if file_type = ''csv'' then Inr (CHR '','')
      else if file_type = ''txt'' then Inr TAB
      else Inl (ValueError (''unsupported file type: '' @ file_type)))"

text \<open>
  The loop over the batches: \<open>out\<close> is what has been written to the text file,
  \<open>is_first_chunk\<close> the flag of the source.
\<close>

fun write_batches :: "char \<Rightarrow> bool \<Rightarrow> cell list list list \<Rightarrow> string \<Rightarrow> string" where
  "write_batches sep is_first_chunk [] out = out"
| "write_batches sep is_first_chunk (batch # rest) out =
     (let df_string = to_csv sep batch;
          out1 = (if \<not> is_first_chunk then out @ [NL] else out);
          out2 = out1 @ strip_nl df_string
      in write_batches sep False rest out2)"

definition convert_parquet_to_text_in_chunks ::
  "libs \<Rightarrow> fs \<Rightarrow> log \<Rightarrow> path \<Rightarrow> path \<Rightarrow> string \<Rightarrow> (error + unit) \<times> fs \<times> log" where
  "convert_parquet_to_text_in_chunks L files lg parquet_file_path text_file_path file_type =
     (case export_sep file_type of
        Inl e \<Rightarrow> (Inl e, files, lg)
      | Inr sep \<Rightarrow>
          (case files parquet_file_path of
             None \<Rightarrow>
               (Inl (FileNotFoundError parquet_file_path), files,
                lg @ [Export_failed parquet_file_path text_file_path
                        (FileNotFoundError parquet_file_path)])
           | Some stored \<Rightarrow>
               (case parquet_open L stored of
                  Inl e \<Rightarrow>
                    (Inl e, files, lg @ [Export_failed parquet_file_path text_file_path e])
                | Inr parquet_file \<Rightarrow>
                    (Inr (),
                     files(text_file_path \<mapsto>
                             write_batches sep True (iter_batches L parquet_file 50000) []),
                     lg @ [Export_done text_file_path]))))"

section \<open>The streaming compression envelope\<close>

text \<open>
  The loop both directions share:
  \<open>while True: chunk = src.read(chunk_size); if not chunk: break; dst.write(chunk)\<close>.
  \<open>src\<close> is the unread rest of the source, \<open>written\<close> what the destination has
  received.
\<close>

function copy_chunks :: "nat \<Rightarrow> bytes \<Rightarrow> bytes \<Rightarrow> bytes" where
  "copy_chunks chunk_size src written =
     (let chunk = take chunk_size src
      in if chunk = [] then written
         else copy_chunks chunk_size (drop chunk_size src) (written @ chunk))"
  by pat_completeness auto
termination
  by (relation "measure (\<lambda>(n, src, w). length src)") auto

declare copy_chunks.simps [simp del]

text \<open>\<open>os.path.getsize(p)\<close>\<close>

definition getsize :: "fs \<Rightarrow> path \<Rightarrow> error + nat" where
  "getsize files p = (case files p of None \<Rightarrow> Inl (FileNotFoundError p) | Some b \<Rightarrow> Inr (length b))"

text \<open>
  The body of the \<open>try\<close> of \<open>compress_with_zstd\<close> up to the two sizes: the input is
  opened, then the output is opened for writing (created, or emptied), the input is fed
  to the stream writer chunk by chunk, the writer is closed, and the sizes are read.
\<close>

definition compress_stream ::
  "libs \<Rightarrow> nat \<Rightarrow> fs \<Rightarrow> path \<Rightarrow> path \<Rightarrow> (error + nat \<times> nat) \<times> fs" where
  "compress_stream L chunk_size files input_file output_file =
     (case files input_file of
        None \<Rightarrow> (Inl (FileNotFoundError input_file), files)
      | Some b \<Rightarrow>
          (let files1 = files(output_file \<mapsto> [])
           in (case files1 input_file of
                 None \<Rightarrow> (Inl (FileNotFoundError input_file), files1)
               | Some f_in \<Rightarrow>
                   (let files2 = files1(output_file \<mapsto> zstd_compress L (copy_chunks chunk_size f_in []))
                    in (case getsize files2 input_file of
                          Inl e \<Rightarrow> (Inl e, files2)
                        | Inr original_size \<Rightarrow>
                            (case getsize files2 output_file of
                               Inl e \<Rightarrow> (Inl e, files2)
                             | Inr compressed_size \<Rightarrow>
                                 (Inr (original_size, compressed_size), files2)))))))"

text \<open>
  \<open>compress_with_zstd\<close> of \<open>zstd_compressor.py\<close>: the ratio
  \<open>(1 - compressed_size / original_size) * 100\<close> is computed for the log, and the two
  sizes are returned.
\<close>

definition compress_with_zstd ::
  "libs \<Rightarrow> fs \<Rightarrow> log \<Rightarrow> path \<Rightarrow> path \<Rightarrow> (error + nat \<times> nat) \<times> fs \<times> log" where
  "compress_with_zstd L files lg input_file output_file =
     (case compress_stream L (4096000 * 1024) files input_file output_file of
        (Inl e, files1) \<Rightarrow> (Inl e, files1, lg @ [Compress_failed input_file output_file e])
      | (Inr (original_size, compressed_size), files1) \<Rightarrow>
          if original_size = 0
          then (Inl ZeroDivisionError, files1,
                lg @ [Compress_failed input_file output_file ZeroDivisionError])
          else (Inr (original_size, compressed_size), files1, lg @ [Compress_done original_size]))"

text \<open>The statistics both \<open>main.py\<close> and \<open>compression_stats.py\<close> keep (the times aside).\<close>

record stats =
  total_original :: nat
  total_compressed :: nat
  file_count :: nat

text \<open>
  \<open>compress_with_zstd\<close> as in force in \<open>main.py\<close>: the global statistics are updated
  between reading the sizes and computing the ratio, and nothing is returned.
\<close>

definition compress_with_zstd_main ::
  "libs \<Rightarrow> fs \<Rightarrow> log \<Rightarrow> stats \<Rightarrow> path \<Rightarrow> path \<Rightarrow> (error + unit) \<times> fs \<times> log \<times> stats" where
  "compress_with_zstd_main L files lg compression_stats input_file output_file =
     (case compress_stream L (4096000 * 1024) files input_file output_file of
        (Inl e, files1) \<Rightarrow>
          (Inl e, files1, lg @ [Compress_failed input_file output_file e], compression_stats)
      | (Inr (original_size, compressed_size), files1) \<Rightarrow>
          (let compression_stats1 =
                 compression_stats\<lparr>
                   total_original := total_original compression_stats + original_size,
                   total_compressed := total_compressed compression_stats + compressed_size,
                   file_count := file_count compression_stats + 1\<rparr>
           in if original_size = 0
              then (Inl ZeroDivisionError, files1,
                    lg @ [Compress_failed input_file output_file ZeroDivisionError],
                    compression_stats1)
              else (Inr (), files1, lg @ [Compress_done original_size], compression_stats1)))"

text \<open>
  \<open>decompress_with_zstd\<close> (the same in both files): the archive is opened, the output
  is opened for writing, and the stream reader's bytes are copied chunk by chunk until
  it returns nothing or raises; an exception is logged and raised again.
\<close>

definition decompress_with_zstd ::
  "libs \<Rightarrow> fs \<Rightarrow> log \<Rightarrow> path \<Rightarrow> path \<Rightarrow> (error + unit) \<times> fs \<times> log" where
  "decompress_with_zstd L files lg compressed_file output_file =
     (case files compressed_file of
        None \<Rightarrow>
          (Inl (FileNotFoundError compressed_file), files,
           lg @ [Decompress_failed compressed_file (FileNotFoundError compressed_file)])
      | Some b \<Rightarrow>
          (let files1 = files(output_file \<mapsto> [])
           in (case files1 compressed_file of
                 None \<Rightarrow>
                   (Inl (FileNotFoundError compressed_file), files1,
                    lg @ [Decompress_failed compressed_file (FileNotFoundError compressed_file)])
               | Some f_in \<Rightarrow>
                   (case zstd_stream_reader L f_in of (delivered, failure) \<Rightarrow>
                      (let files2 = files1(output_file \<mapsto> copy_chunks (4096 * 1024) delivered [])
                       in (case failure of
                             Some e \<Rightarrow>
                               (Inl e, files2, lg @ [Decompress_failed compressed_file e])
                           | None \<Rightarrow>
                               (Inr (), files2,
                                lg @ [Decompress_done compressed_file output_file])))))))"

section \<open>The orchestrator (\<open>compressmain\<close>, \<open>decompressmain\<close>)\<close>

text \<open>\<open>s.rfind(c)\<close>: the last index of the character, or -1.\<close>

definition rfind :: "char \<Rightarrow> string \<Rightarrow> int" where
  "rfind c s =
     (case filter (\<lambda>i. s ! i = c) (rev [0..<length s]) of
        [] \<Rightarrow> - 1
      | i # rest \<Rightarrow> int i)"

text \<open>
  \<open>os.path.splitext(p)\<close>: the path is cut at its last dot when that dot lies after the
  last slash and some character between the two is not a dot.
\<close>

definition splitext :: "path \<Rightarrow> string \<times> string" where
  "splitext p =
     (let sepIndex = rfind (CHR ''/'') p;
          dotIndex = rfind (CHR ''.'') p
      in if sepIndex < dotIndex \<and>
            list_ex (\<lambda>c. c \<noteq> CHR ''.'')
              (take (nat (dotIndex - (sepIndex + 1))) (drop (nat (sepIndex + 1)) p))
         then (take (nat dotIndex) p, drop (nat dotIndex) p)
         else (p, []))"

text \<open>\<open>os.path.join(a, b)\<close>\<close>

definition path_join :: "path \<Rightarrow> path \<Rightarrow> path" where
  "path_join a b =
     (if startswith b ''/'' then b
      else if a = [] \<or> endswith a ''/'' then a @ b
      else a @ ''/'' @ b)"

definition data_dir :: path where
  "data_dir = ''data''"

definition compress_dir :: path where
  "compress_dir = ''compress''"

definition decompress_dir :: path where
  "decompress_dir = ''decompress''"

text \<open>\<open>os.remove(p)\<close>\<close>

definition os_remove :: "fs \<Rightarrow> path \<Rightarrow> error + fs" where
  "os_remove files p =
     (case files p of None \<Rightarrow> Inl (FileNotFoundError p) | Some b \<Rightarrow> Inr (files(p := None)))"

text \<open>
  The names \<open>compressmain\<close> derives from a file name:
  \<open>file_type = file_name.split(".")[-1]\<close>,
  \<open>base_name = os.path.splitext(file_name)[0]\<close>,
  \<open>temp_parquet = os.path.join(compress_dir, f"{base_name}.parquet")\<close> and
  \<open>compressed_file = os.path.join(compress_dir, f"{base_name}.zstd")\<close>.
\<close>

definition file_type_of :: "string \<Rightarrow> string" where
  "file_type_of file_name = last (split_on (CHR ''.'') file_name)"

definition temp_parquet_of :: "string \<Rightarrow> path" where
  "temp_parquet_of file_name = path_join compress_dir (fst (splitext file_name) @ ''.parquet'')"

definition compressed_file_of :: "string \<Rightarrow> path" where
  "compressed_file_of file_name = path_join compress_dir (fst (splitext file_name) @ ''.zstd'')"

text \<open>
  One round of the loop of \<open>compressmain\<close>: the files, the log and the statistics
  before and after. The functions called are the ones in force in \<open>main.py\<close>. Whatever
  is raised inside the \<open>try\<close> is logged with the file name, and the loop continues.
\<close>

definition compress_one :: "libs \<Rightarrow> fs \<times> log \<times> stats \<Rightarrow> string \<Rightarrow> fs \<times> log \<times> stats" where
  "compress_one L state file_name =
     (case state of (files, lg, compression_stats) \<Rightarrow>
        if endswith file_name ''.tbl'' \<or> endswith file_name ''.csv'' \<or> endswith file_name ''.txt''
        then
          (let file_path = path_join data_dir file_name;
               file_type = file_type_of file_name;
               lg0 = lg @ [Processing file_name]
           in (case read_file_data_in_chunks L files lg0 file_path file_type of
                 (Inl e, lg1) \<Rightarrow> (files, lg1 @ [File_failed file_name e], compression_stats)
               | (Inr chunk_iterator, lg1) \<Rightarrow>
                   (let temp_parquet = temp_parquet_of file_name
                    in (case convert_to_columnar_in_chunks_main L files lg1 chunk_iterator
                                 temp_parquet file_type of
                          (Inl e, files1, lg2) \<Rightarrow>
                            (files1, lg2 @ [File_failed file_name e], compression_stats)
                        | (Inr u, files1, lg2) \<Rightarrow>
                            (let compressed_file = compressed_file_of file_name
                             in (case compress_with_zstd_main L files1 lg2 compression_stats
                                          temp_parquet compressed_file of
                                   (Inl e, files2, lg3, stats1) \<Rightarrow>
                                     (files2, lg3 @ [File_failed file_name e], stats1)
                                 | (Inr v, files2, lg3, stats1) \<Rightarrow>
                                     (case os_remove files2 temp_parquet of
                                        Inl e \<Rightarrow> (files2, lg3 @ [File_failed file_name e], stats1)
                                      | Inr files3 \<Rightarrow>
                                          (files3,
                                           lg3 @ [File_compressed compressed_file, File_time file_name],
                                           stats1))))))))
        else state)"

text \<open>\<open>compressmain\<close>, for the names \<open>os.listdir(data_dir)\<close> returns.\<close>

definition compressmain :: "libs \<Rightarrow> string list \<Rightarrow> fs \<times> log \<times> stats \<Rightarrow> fs \<times> log \<times> stats" where
  "compressmain L listing state = foldl (compress_one L) state listing"

text \<open>\<open>metadata.get(key, default)\<close>\<close>

definition metadata_get :: "(string \<times> string) list \<Rightarrow> string \<Rightarrow> string \<Rightarrow> string" where
  "metadata_get md key dflt = (case map_of md key of None \<Rightarrow> dflt | Some v \<Rightarrow> v)"

text \<open>
  The \<open>with pq.ParquetFile(decompressed_parquet)\<close> block of \<open>decompressmain\<close>:
  \<open>schema_arrow.metadata\<close> is \<open>None\<close> for a schema without metadata, and \<open>None.get\<close>
  raises.
\<close>

definition read_original_ext :: "libs \<Rightarrow> fs \<Rightarrow> path \<Rightarrow> error + string" where
  "read_original_ext L files decompressed_parquet =
     (case files decompressed_parquet of
        None \<Rightarrow> Inl (FileNotFoundError decompressed_parquet)
      | Some stored \<Rightarrow>
          (case parquet_open L stored of
             Inl e \<Rightarrow> Inl e
           | Inr parquet_file \<Rightarrow>
               (let metadata = sch_metadata (pq_schema parquet_file)
                in if metadata = [] then Inl (LibraryError ''AttributeError'')
                   else Inr (metadata_get metadata ''original_extension'' ''tbl''))))"

text \<open>One round of the loop of \<open>decompressmain\<close>.\<close>

definition decompress_one :: "libs \<Rightarrow> fs \<times> log \<Rightarrow> string \<Rightarrow> fs \<times> log" where
  "decompress_one L state compressed_file_name =
     (case state of (files, lg) \<Rightarrow>
        if endswith compressed_file_name ''.zstd''
        then
          (let compressed_file_path = path_join compress_dir compressed_file_name;
               base_name = fst (splitext compressed_file_name);
               original_name_without_ext = fst (splitext base_name);
               original_ext = drop 1 (snd (splitext base_name));
               decompressed_parquet = path_join compress_dir (original_name_without_ext @ ''.parquet'')
           in (case decompress_with_zstd L files lg compressed_file_path decompressed_parquet of
                 (Inl e, files1, lg1) \<Rightarrow> (files1, lg1 @ [Restore_failed compressed_file_name e])
               | (Inr u, files1, lg1) \<Rightarrow>
                   (case read_original_ext L files1 decompressed_parquet of
                      Inl e \<Rightarrow> (files1, lg1 @ [Restore_failed compressed_file_name e])
                    | Inr original_ext \<Rightarrow>
                        (let output_file_name = original_name_without_ext @ ''.'' @ original_ext;
                             output_path = path_join decompress_dir output_file_name
                         in (case convert_parquet_to_text_in_chunks L files1 lg1
                                      decompressed_parquet output_path original_ext of
                               (Inl e, files2, lg2) \<Rightarrow>
                                 (files2, lg2 @ [Restore_failed compressed_file_name e])
                             | (Inr v, files2, lg2) \<Rightarrow>
                                 (case os_remove files2 decompressed_parquet of
                                    Inl e \<Rightarrow> (files2, lg2 @ [Restore_failed compressed_file_name e])
                                  | Inr files3 \<Rightarrow> (files3, lg2 @ [File_restored output_path])))))))
        else state)"

definition decompressmain :: "libs \<Rightarrow> string list \<Rightarrow> fs \<times> log \<Rightarrow> fs \<times> log" where
  "decompressmain L listing state = foldl (decompress_one L) state listing"

section \<open>Library answers for running examples\<close>

text \<open>
  Libraries whose answers are fixed in advance, for running the pipeline on a concrete
  input: \<open>read_csv\<close> returns an iterator without chunks, every Parquet file has the
  bytes \<open>PAR1\<close> and none can be opened, the compressor copies its input and the stream
  reader delivers the archive as it is. An example replaces the answers it is about.
\<close>

definition idle_libs :: libs where
  "idle_libs =
     \<lparr>read_csv = (\<lambda>text sep names. Inr []),
      pandas_metadata = (\<lambda>df. ''{}''),
      parquet_bytes = (\<lambda>pf. ''PAR1''),
      parquet_open = (\<lambda>stored. Inl (LibraryError ''ArrowInvalid'')),
      iter_batches = (\<lambda>pf n. []),
      zstd_compress = (\<lambda>b. b),
      zstd_stream_reader = (\<lambda>b. (b, None))\<rparr>"

section \<open>Properties of the inference\<close>

text \<open>
  C4, the separator of the file type is the default separator. The chain on the file
  type gives the pipe for \<open>tbl\<close> and the tab for \<open>txt\<close>, but the separator the
  sample's fields are counted with is the one assigned after the first \<open>readline\<close>: for
  the paths \<open>compressmain\<close> builds, it is the comma, whatever the type. A line of three
  pipe-separated fields so counts as one field.
\<close>

theorem default_sep_ignores_type_hint:
  "type_hint_sep ''tbl'' = Inr (CHR ''|'') \<and>
   default_sep (path_join data_dir ''customer.tbl'') = CHR '','' \<and>
   type_hint_sep ''txt'' = Inr TAB \<and>
   default_sep (path_join data_dir ''notes.txt'') = CHR '','' \<and>
   column_counts_of (default_sep (path_join data_dir ''customer.tbl'')) [''1|a|b''] = [1]"
  by code_simp

text \<open>
  C9, the preview sample is the next 20 lines. Each round of the comprehension reads
  two lines and keeps the second: of the four lines that follow the first line of a
  file, the sample holds the second and the fourth; when the lines run out between
  the two reads of a round, the sample ends with an empty string; and of 42 lines, 40
  are read and 20 kept.
\<close>

theorem preview_keeps_every_second_line:
  "preview 20 ''r2\<newline>r3\<newline>r4\<newline>r5\<newline>'' = ([''r3\<newline>'', ''r5\<newline>''], []) \<and>
   preview 20 ''r2\<newline>r3\<newline>r4\<newline>'' = ([''r3\<newline>'', []], []) \<and>
   preview 20 (concat (replicate 42 ''x\<newline>'')) =
     (replicate 20 ''x\<newline>'', concat (replicate 2 ''x\<newline>''))"
  by code_simp

text \<open>
  C3, agreeing field counts under the default separator give that count and the default
  separator. For a CSV file of three lines with two comma-separated fields each, the
  counts agree and the comma is both the default and the most frequent candidate; the
  column names then read \<open>num_columns\<close>, which no branch has assigned, and the call
  raises instead of returning a schema. And for a file whose lines hold pipes and no
  comma, the counts under the comma agree (one field each), yet the separator is
  replaced by the pipe and the count is taken under it.
\<close>

theorem agreeing_csv_sample_raises:
  "read_file_data_in_chunks L [''data/a.csv'' \<mapsto> ''h1,h2\<newline>x,y\<newline>a,b\<newline>''] []
     ''data/a.csv'' ''csv'' =
   (Inl (UnboundLocalError ''num_columns''),
    [Parse_failed ''data/a.csv'' (UnboundLocalError ''num_columns'')]) \<and>
   infer_schema [''data/b.csv'' \<mapsto> ''h1|h2\<newline>x|y\<newline>a|b\<newline>''] [] ''data/b.csv'' =
   (Inr (CHR ''|'', [''col_0'', ''col_1'']), [Switch_separator (CHR ''|''), Stable_columns 2])"
  by code_simp

text \<open>
  A schema is returned only with a separator other than the default one: whenever the
  most frequent candidate is the default separator, the call raises.
\<close>

lemma infer_schema_substitutes:
  "infer_schema files lg file_path = (Inr (sep, names), lg') \<Longrightarrow> sep \<noteq> default_sep file_path"
  by (auto simp: infer_schema_def Let_def split: option.splits prod.splits if_splits)

text \<open>
  One round of the preview on a file that goes on with two full lines: the first is
  read and dropped, the second is kept.
\<close>

lemma readline_line: "NL \<notin> set a \<Longrightarrow> readline (a @ NL # rest) = (a @ [NL], rest)"
  by (induction a) auto

lemma preview_round:
  assumes "NL \<notin> set a" and "NL \<notin> set b"
  shows "preview (Suc n) (a @ NL # b @ NL # rest) =
           (case preview n rest of (ls, f) \<Rightarrow> ((b @ [NL]) # ls, f))"
  using assms by (simp add: readline_line split: prod.splits)

section \<open>Properties of the orchestrator\<close>

text \<open>
  C8, the archive of \<open>customer.tbl\<close> is named \<open>customer.tbl.zstd\<close>. The archive name
  is built from the file name without its extension, so the extension is not part of
  it, and two inputs that differ only in their extension get the same archive.
  \<open>decompressmain\<close> takes two extensions off the archive's name, as for a name with
  the extension kept: of the archive of \<open>data.v1.tbl\<close> it keeps \<open>data\<close>.
\<close>

theorem archive_name_drops_extension:
  "compressed_file_of ''customer.tbl'' = ''compress/customer.zstd'' \<and>
   compressed_file_of ''customer.csv'' = compressed_file_of ''customer.tbl'' \<and>
   compressed_file_of ''data.v1.tbl'' = ''compress/data.v1.zstd'' \<and>
   fst (splitext (fst (splitext ''data.v1.zstd''))) = ''data''"
  by code_simp

section \<open>Properties of the compression envelope\<close>

text \<open>With a positive chunk size the copying loop delivers the whole source, in order.\<close>

lemma copy_chunks_all: "0 < n \<Longrightarrow> copy_chunks n src written = written @ src"
proof (induction n src written rule: copy_chunks.induct)
  case (1 chunk_size src written)
  show ?case
  proof (cases "take chunk_size src = []")
    case True
    with "1.prems" have "src = []" by (cases src) auto
    with True show ?thesis by (simp add: copy_chunks.simps)
  next
    case False
    have "copy_chunks chunk_size src written =
          copy_chunks chunk_size (drop chunk_size src) (written @ take chunk_size src)"
      using False by (subst copy_chunks.simps) (simp add: Let_def)
    also have "\<dots> = (written @ take chunk_size src) @ drop chunk_size src"
      using "1.IH" [OF refl False] "1.prems" by simp
    finally show ?thesis by simp
  qed
qed

lemma compress_stream_empty:
  assumes "files input_file = Some []" and "input_file \<noteq> output_file" and "0 < n"
  shows "compress_stream L n files input_file output_file =
           (Inr (0, length (zstd_compress L [])), files(output_file \<mapsto> zstd_compress L []))"
  using assms by (simp add: compress_stream_def copy_chunks_all getsize_def Let_def)

text \<open>
  C10, compressing a zero-byte file. For an input file of no bytes (and an output path
  other than the input's), both definitions of \<open>compress_with_zstd\<close> raise
  \<open>ZeroDivisionError\<close>, log it and raise it again; the files they leave hold the
  archive of the empty input at the output path, and the definition of \<open>main.py\<close>
  has by then added the two sizes to the totals and one to the file count.
\<close>

theorem compress_empty_file_divides_by_zero:
  assumes "files input_file = Some []" and "input_file \<noteq> output_file"
  shows "compress_with_zstd L files lg input_file output_file =
           (Inl ZeroDivisionError, files(output_file \<mapsto> zstd_compress L []),
            lg @ [Compress_failed input_file output_file ZeroDivisionError]) \<and>
         compress_with_zstd_main L files lg compression_stats input_file output_file =
           (Inl ZeroDivisionError, files(output_file \<mapsto> zstd_compress L []),
            lg @ [Compress_failed input_file output_file ZeroDivisionError],
            compression_stats\<lparr>
              total_original := total_original compression_stats + 0,
              total_compressed := total_compressed compression_stats + length (zstd_compress L []),
              file_count := file_count compression_stats + 1\<rparr>)"
  using assms
  by (simp add: compress_with_zstd_def compress_with_zstd_main_def compress_stream_empty)

theorem compress_empty_file_witness:
  "\<forall>L. fst (compress_with_zstd L [''compress/a.parquet'' \<mapsto> []] []
               ''compress/a.parquet'' ''compress/a.zstd'') = Inl ZeroDivisionError \<and>
       fst (snd (compress_with_zstd L [''compress/a.parquet'' \<mapsto> []] []
               ''compress/a.parquet'' ''compress/a.zstd'')) ''compress/a.zstd'' =
         Some (zstd_compress L []) \<and>
       file_count (snd (snd (snd (compress_with_zstd_main L [''compress/a.parquet'' \<mapsto> []] []
               \<lparr>total_original = 0, total_compressed = 0, file_count = 0\<rparr>
               ''compress/a.parquet'' ''compress/a.zstd'')))) = 1"
  using compress_empty_file_divides_by_zero
          [of "[''compress/a.parquet'' \<mapsto> []]" "''compress/a.parquet''" "''compress/a.zstd''" _ "[]"
              "\<lparr>total_original = 0, total_compressed = 0, file_count = 0\<rparr>"]
  by simp

text \<open>
  C6, a truncated archive fails with \<open>DecompressionError\<close> and leaves no output file.
  As amended: for an archive that exists (at a path other than the output's), the
  output file is created before the first byte is read and is never removed; when the
  call ends, it holds the bytes the stream reader delivered. The call fails only when
  the reader raises, and then with the reader's own exception, which is logged and
  raised again; otherwise it returns normally.
\<close>

theorem decompress_keeps_output_file:
  assumes "files compressed_file = Some archive"
      and "compressed_file \<noteq> output_file"
      and "zstd_stream_reader L archive = (delivered, failure)"
  shows "decompress_with_zstd L files lg compressed_file output_file =
           (case failure of
              Some e \<Rightarrow>
                (Inl e, files(output_file \<mapsto> delivered),
                 lg @ [Decompress_failed compressed_file e])
            | None \<Rightarrow>
                (Inr (), files(output_file \<mapsto> delivered),
                 lg @ [Decompress_done compressed_file output_file]))"
  using assms by (simp add: decompress_with_zstd_def copy_chunks_all Let_def split: option.splits)

theorem decompress_keeps_output_file_witness:
  "decompress_with_zstd
     (idle_libs\<lparr>zstd_stream_reader := (\<lambda>b. ([], Some (LibraryError ''ZstdError'')))\<rparr>)
     [''compress/b.zstd'' \<mapsto> [CHR 0x28, CHR 0xB5, CHR 0x2F, CHR 0xFD]] []
     ''compress/b.zstd'' ''compress/b.parquet'' =
   (Inl (LibraryError ''ZstdError''),
    [''compress/b.zstd'' \<mapsto> [CHR 0x28, CHR 0xB5, CHR 0x2F, CHR 0xFD], ''compress/b.parquet'' \<mapsto> []],
    [Decompress_failed ''compress/b.zstd'' (LibraryError ''ZstdError'')])"
  using decompress_keeps_output_file
          [of "[''compress/b.zstd'' \<mapsto> [CHR 0x28, CHR 0xB5, CHR 0x2F, CHR 0xFD]]" "''compress/b.zstd''"
              "[CHR 0x28, CHR 0xB5, CHR 0x2F, CHR 0xFD]" "''compress/b.parquet''"
              "idle_libs\<lparr>zstd_stream_reader := (\<lambda>b. ([], Some (LibraryError ''ZstdError'')))\<rparr>"
              "[]" "Some (LibraryError ''ZstdError'')" "[]"]
  by simp

text \<open>
  The claim as stated fails: for an archive cut down to the four bytes of the frame's
  magic number the reader delivers nothing; whether it then raises or only ends, the
  output file has been created and stays on disk, empty, and in the second case the
  call does not fail.
\<close>

theorem truncated_archive_leaves_output_file:
  "fst (decompress_with_zstd
          (idle_libs\<lparr>zstd_stream_reader := (\<lambda>b. ([], Some (LibraryError ''ZstdError'')))\<rparr>)
          [''compress/a.zstd'' \<mapsto> [CHR 0x28, CHR 0xB5, CHR 0x2F, CHR 0xFD]] []
          ''compress/a.zstd'' ''compress/a.parquet'') = Inl (LibraryError ''ZstdError'') \<and>
   fst (snd (decompress_with_zstd
          (idle_libs\<lparr>zstd_stream_reader := (\<lambda>b. ([], Some (LibraryError ''ZstdError'')))\<rparr>)
          [''compress/a.zstd'' \<mapsto> [CHR 0x28, CHR 0xB5, CHR 0x2F, CHR 0xFD]] []
          ''compress/a.zstd'' ''compress/a.parquet'')) ''compress/a.parquet'' = Some [] \<and>
   fst (decompress_with_zstd
          (idle_libs\<lparr>zstd_stream_reader := (\<lambda>b. ([], None))\<rparr>)
          [''compress/a.zstd'' \<mapsto> [CHR 0x28, CHR 0xB5, CHR 0x2F, CHR 0xFD]] []
          ''compress/a.zstd'' ''compress/a.parquet'') = Inr () \<and>
   fst (snd (decompress_with_zstd
          (idle_libs\<lparr>zstd_stream_reader := (\<lambda>b. ([], None))\<rparr>)
          [''compress/a.zstd'' \<mapsto> [CHR 0x28, CHR 0xB5, CHR 0x2F, CHR 0xFD]] []
          ''compress/a.zstd'' ''compress/a.parquet'')) ''compress/a.parquet'' = Some []"
  by (simp add: decompress_with_zstd_def copy_chunks.simps idle_libs_def Let_def)

section \<open>Properties of the exporter\<close>

text \<open>
  A rendered row with a column is not empty and neither begins nor ends with a
  newline; it holds as many newlines as its fields do. The text of a batch is its
  rows' lines joined by newlines, with one more newline at the end.
\<close>

lemma export_sep_not_NL: "export_sep file_type = Inr sep \<Longrightarrow> sep \<noteq> NL"
  by (auto simp: export_sep_def NL_def TAB_def split: if_splits)

lemma DQ_not_NL: "DQ \<noteq> NL"
  by (simp add: DQ_def NL_def)

lemma csv_field_nonempty: "s \<noteq> [] \<Longrightarrow> csv_field sep s \<noteq> []"
  by (simp add: csv_field_def)

lemma csv_field_ends:
  "csv_field sep s \<noteq> [] \<Longrightarrow> hd (csv_field sep s) \<noteq> NL \<and> last (csv_field sep s) \<noteq> NL"
proof (cases "list_ex (\<lambda>c. c = sep \<or> c = DQ \<or> c = NL \<or> c = CR) s")
  case True
  then show ?thesis using DQ_not_NL by (simp add: csv_field_def)
next
  case False
  assume ne: "csv_field sep s \<noteq> []"
  from False have s: "csv_field sep s = s" and nl: "NL \<notin> set s"
    by (auto simp: csv_field_def list_ex_iff)
  from ne s have "s \<noteq> []" by simp
  then have "hd s \<in> set s" "last s \<in> set s" by simp_all
  with nl s show ?thesis by metis
qed

lemma count_quoted: "count_char NL (concat (map (\<lambda>c. if c = DQ then [DQ, DQ] else [c]) s)) = count_char NL s"
  using DQ_not_NL by (induction s) (auto simp: count_char_def)

lemma count_csv_field: "count_char NL (csv_field sep s) = count_char NL s"
proof (cases "list_ex (\<lambda>c. c = sep \<or> c = DQ \<or> c = NL \<or> c = CR) s")
  case True
  have "count_char NL (DQ # concat (map (\<lambda>c. if c = DQ then [DQ, DQ] else [c]) s) @ [DQ]) =
        count_char NL (concat (map (\<lambda>c. if c = DQ then [DQ, DQ] else [c]) s))"
    using DQ_not_NL by (simp add: count_char_def)
  with True show ?thesis by (simp add: csv_field_def count_quoted)
next
  case False
  then show ?thesis by (simp add: csv_field_def)
qed

lemma count_append: "count_char c (xs @ ys) = count_char c xs + count_char c ys"
  by (simp add: count_char_def)

lemma count_join_sep:
  "sep \<noteq> NL \<Longrightarrow> count_char NL (join_fields sep xs) = sum_list (map (count_char NL) xs)"
  by (induction sep xs rule: join_fields.induct) (auto simp: count_append, auto simp: count_char_def)

lemma count_join_NL:
  "xs \<noteq> [] \<Longrightarrow> Suc (count_char NL (join_fields NL xs)) = length xs + sum_list (map (count_char NL) xs)"
  by (induction NL xs rule: join_fields.induct) (auto simp: count_append, auto simp: count_char_def)

lemma join_fields_ends:
  assumes "sep \<noteq> NL"
      and "\<forall>x\<in>set xs. x \<noteq> [] \<longrightarrow> hd x \<noteq> NL \<and> last x \<noteq> NL"
      and "join_fields sep xs \<noteq> []"
  shows "hd (join_fields sep xs) \<noteq> NL \<and> last (join_fields sep xs) \<noteq> NL"
  using assms
proof (induction sep xs rule: join_fields.induct)
  case (1 sep)
  then show ?case by simp
next
  case (2 sep x)
  then show ?case by simp
next
  case (3 sep x y rest)
  let ?J = "join_fields sep (y # rest)"
  have hd: "hd (x @ sep # ?J) \<noteq> NL"
    using "3.prems" by (cases x) auto
  have "last (x @ sep # ?J) \<noteq> NL"
  proof (cases "?J = []")
    case True
    then show ?thesis using "3.prems"(1) by simp
  next
    case False
    then have "last ?J \<noteq> NL" using "3.IH" "3.prems" by simp
    with False show ?thesis by simp
  qed
  with hd show ?case by simp
qed

lemma render_row_nonempty: "row \<noteq> [] \<Longrightarrow> render_row sep row \<noteq> []"
proof (cases row)
  case Nil
  assume "row \<noteq> []" with Nil show ?thesis by simp
next
  case (Cons c rest)
  show ?thesis
  proof (cases rest)
    case Nil
    with Cons show ?thesis by (simp add: render_row_def csv_field_nonempty)
  next
    case (Cons d rest')
    with \<open>row = c # rest\<close> show ?thesis by (simp add: render_row_def)
  qed
qed

lemma render_row_ends:
  assumes "sep \<noteq> NL" and "row \<noteq> []"
  shows "hd (render_row sep row) \<noteq> NL \<and> last (render_row sep row) \<noteq> NL"
proof (cases "map cell_text row = [[]]")
  case True
  then show ?thesis using DQ_not_NL by (simp add: render_row_def)
next
  case False
  let ?fs = "map (\<lambda>c. csv_field sep (cell_text c)) row"
  have r: "render_row sep row = join_fields sep ?fs" using False by (simp add: render_row_def)
  have "\<forall>x\<in>set ?fs. x \<noteq> [] \<longrightarrow> hd x \<noteq> NL \<and> last x \<noteq> NL"
    using csv_field_ends by auto
  moreover have "join_fields sep ?fs \<noteq> []" using render_row_nonempty [OF assms(2), of sep] r by simp
  ultimately show ?thesis using join_fields_ends [OF assms(1)] r by simp
qed

lemma count_render_row:
  assumes "sep \<noteq> NL"
  shows "count_char NL (render_row sep row) = (\<Sum>c\<leftarrow>row. count_char NL (cell_text c))"
proof (cases "map cell_text row = [[]]")
  case True
  then obtain c where "row = [c]" "cell_text c = []" by (cases row) auto
  then show ?thesis using True DQ_not_NL by (simp add: render_row_def count_char_def)
next
  case False
  then show ?thesis
    using count_join_sep [OF assms, of "map (\<lambda>c. csv_field sep (cell_text c)) row"]
    by (simp add: render_row_def comp_def count_csv_field)
qed

lemma to_csv_join: "batch \<noteq> [] \<Longrightarrow> to_csv sep batch = join_fields NL (map (render_row sep) batch) @ [NL]"
proof (induction batch)
  case Nil then show ?case by simp
next
  case (Cons r rest)
  show ?case
  proof (cases rest)
    case Nil then show ?thesis by (simp add: to_csv_def)
  next
    case (Cons r' rest')
    with Cons.IH have "to_csv sep rest = join_fields NL (map (render_row sep) rest) @ [NL]" by simp
    then show ?thesis using Cons by (simp add: to_csv_def)
  qed
qed

lemma hd_join_fields: "xs \<noteq> [] \<Longrightarrow> hd xs \<noteq> [] \<Longrightarrow> hd (join_fields sep xs) = hd (hd xs)"
  by (induction sep xs rule: join_fields.induct) auto

lemma join_fields_last_nonempty: "xs \<noteq> [] \<Longrightarrow> last xs \<noteq> [] \<Longrightarrow> join_fields sep xs \<noteq> []"
  by (induction sep xs rule: join_fields.induct) auto

lemma last_join_fields: "xs \<noteq> [] \<Longrightarrow> last xs \<noteq> [] \<Longrightarrow> last (join_fields sep xs) = last (last xs)"
proof (induction sep xs rule: join_fields.induct)
  case (3 sep x y rest)
  then have "join_fields sep (y # rest) \<noteq> []" using join_fields_last_nonempty [of "y # rest" sep] by simp
  with 3 show ?case by simp
qed auto

lemma strip_nl_line: "s \<noteq> [] \<Longrightarrow> hd s \<noteq> NL \<Longrightarrow> last s \<noteq> NL \<Longrightarrow> strip_nl (s @ [NL]) = s"
proof -
  assume a: "s \<noteq> []" "hd s \<noteq> NL" "last s \<noteq> NL"
  then have 1: "dropWhile (\<lambda>c. c = NL) (s @ [NL]) = s @ [NL]" by (cases s) auto
  from a have 2: "dropWhile (\<lambda>c. c = NL) (rev s) = rev s"
    by (cases s rule: rev_cases) auto
  show ?thesis by (simp add: strip_nl_def 1 2)
qed

lemma join_fields_append:
  "xs \<noteq> [] \<Longrightarrow> ys \<noteq> [] \<Longrightarrow> join_fields sep (xs @ ys) = join_fields sep xs @ sep # join_fields sep ys"
proof (induction sep xs rule: join_fields.induct)
  case (2 sep x)
  then show ?case by (cases ys) auto
qed auto

lemma write_batches_rest:
  "write_batches sep False batches out = out @ concat (map (\<lambda>b. NL # strip_nl (to_csv sep b)) batches)"
  by (induction batches arbitrary: out) (auto simp: Let_def)

lemma write_batches_first:
  "write_batches sep True batches [] = join_fields NL (map (\<lambda>b. strip_nl (to_csv sep b)) batches)"
proof (cases batches)
  case Nil then show ?thesis by simp
next
  case (Cons b rest)
  have "join_fields NL (x # xs) = x @ concat (map (\<lambda>y. NL # y) xs)" for x xs
    by (induction xs arbitrary: x) auto
  then show ?thesis using Cons by (simp add: Let_def write_batches_rest comp_def map_concat o_def)
qed

lemma strip_batch:
  assumes "sep \<noteq> NL" and "batch \<noteq> []" and "\<forall>row\<in>set batch. row \<noteq> []"
  shows "strip_nl (to_csv sep batch) = join_fields NL (map (render_row sep) batch)"
proof -
  let ?ls = "map (render_row sep) batch"
  have ls: "?ls \<noteq> []" using assms by simp
  have "hd batch \<in> set batch" "last batch \<in> set batch" using assms(2) by simp_all
  then have hl: "hd batch \<noteq> []" "last batch \<noteq> []" using assms(3) by blast+
  have h: "hd ?ls = render_row sep (hd batch)" "last ?ls = render_row sep (last batch)"
    using assms(2) by (simp_all add: hd_map last_map)
  have h1: "hd ?ls \<noteq> []" "last ?ls \<noteq> []"
    using h hl render_row_nonempty by simp_all
  have h2: "hd (hd ?ls) \<noteq> NL" "last (last ?ls) \<noteq> NL"
    using h render_row_ends [OF assms(1) hl(1)] render_row_ends [OF assms(1) hl(2)] by simp_all
  have j: "join_fields NL ?ls \<noteq> []" using join_fields_last_nonempty [OF ls h1(2)] .
  have "hd (join_fields NL ?ls) \<noteq> NL" "last (join_fields NL ?ls) \<noteq> NL"
    using hd_join_fields [OF ls h1(1)] last_join_fields [OF ls h1(2)] h2 by simp_all
  then show ?thesis using to_csv_join [OF assms(2)] strip_nl_line [OF j] by simp
qed

lemma join_concat:
  "batches \<noteq> [] \<Longrightarrow> \<forall>b\<in>set batches. b \<noteq> [] \<Longrightarrow>
   join_fields sep (map (\<lambda>b. join_fields sep (map f b)) batches) =
   join_fields sep (map f (concat batches))"
proof (induction batches)
  case Nil
  then show ?case by simp
next
  case (Cons b rest)
  show ?case
  proof (cases rest)
    case Nil
    then show ?thesis by simp
  next
    case (Cons b' rest')
    have c: "concat rest \<noteq> []" using Cons Cons.prems by auto
    have "join_fields sep (map (\<lambda>b. join_fields sep (map f b)) (b # rest)) =
          join_fields sep (map f b) @
          sep # join_fields sep (map (\<lambda>b. join_fields sep (map f b)) rest)"
      using Cons by simp
    also have "\<dots> = join_fields sep (map f b) @ sep # join_fields sep (map f (concat rest))"
      using Cons.IH Cons.prems Cons by simp
    also have "\<dots> = join_fields sep (map f b @ map f (concat rest))"
      using join_fields_append [of "map f b" "map f (concat rest)" sep] c Cons.prems by simp
    finally show ?thesis by simp
  qed
qed

text \<open>
  The exported text is the rows' lines, in order, joined by single newlines, however
  the rows are split into batches.
\<close>

lemma write_batches_lines:
  assumes "sep \<noteq> NL" and "batches \<noteq> []"
      and "\<forall>b\<in>set batches. b \<noteq> [] \<and> (\<forall>row\<in>set b. row \<noteq> [])"
  shows "write_batches sep True batches [] =
           join_fields NL (map (render_row sep) (concat batches))"
proof -
  have m: "map (\<lambda>b. strip_nl (to_csv sep b)) batches =
           map (\<lambda>b. join_fields NL (map (render_row sep) b)) batches"
    by (rule map_cong) (use assms in \<open>auto simp: strip_batch\<close>)
  have "\<forall>b\<in>set batches. b \<noteq> []" using assms(3) by blast
  from join_concat [OF assms(2) this, of NL "render_row sep"] show ?thesis
    by (simp only: write_batches_first m)
qed

lemma lines_newlines:
  assumes "sep \<noteq> NL" and "rows \<noteq> []" and "\<forall>row\<in>set rows. row \<noteq> []"
  shows "Suc (count_char NL (join_fields NL (map (render_row sep) rows))) =
           length rows + (\<Sum>row\<leftarrow>rows. \<Sum>c\<leftarrow>row. count_char NL (cell_text c))"
    and "join_fields NL (map (render_row sep) rows) \<noteq> []"
    and "last (join_fields NL (map (render_row sep) rows)) \<noteq> NL"
proof -
  let ?ls = "map (render_row sep) rows"
  have ls: "?ls \<noteq> []" using assms by simp
  have "map (count_char NL) ?ls = map (\<lambda>row. \<Sum>c\<leftarrow>row. count_char NL (cell_text c)) rows"
    using count_render_row [OF assms(1)] by simp
  then have "sum_list (map (count_char NL) ?ls) =
             (\<Sum>row\<leftarrow>rows. \<Sum>c\<leftarrow>row. count_char NL (cell_text c))"
    by (simp only:)
  then show "Suc (count_char NL (join_fields NL ?ls)) =
               length rows + (\<Sum>row\<leftarrow>rows. \<Sum>c\<leftarrow>row. count_char NL (cell_text c))"
    using count_join_NL [OF ls] by (simp only: length_map)
  have "last rows \<in> set rows" using assms(2) by simp
  then have lr: "last rows \<noteq> []" using assms(3) by blast
  have l: "last ?ls = render_row sep (last rows)" using assms(2) by (simp add: last_map)
  have l1: "last ?ls \<noteq> []" using l lr render_row_nonempty by simp
  show "join_fields NL ?ls \<noteq> []" using join_fields_last_nonempty [OF ls l1] .
  show "last (join_fields NL ?ls) \<noteq> NL"
    using last_join_fields [OF ls l1] l render_row_ends [OF assms(1) lr] by simp
qed

text \<open>
  C5, the exported text has one newline fewer than the container has rows. As amended:
  for every container that is opened and exported, the text written is the batches'
  texts, each stripped of the newlines at its two ends, with a single newline before
  every batch but the first. When there is a batch, no batch is empty and every row
  has a column, that text is the rows' lines in order joined by single newlines,
  whatever the batches: it is not empty, does not end with a newline, and holds one
  newline fewer than there are rows besides the newlines that fields hold themselves.
\<close>

theorem export_newline_count:
  assumes "files parquet_file_path = Some stored"
      and "parquet_open L stored = Inr parquet_file"
      and "export_sep file_type = Inr sep"
      and "iter_batches L parquet_file 50000 = batches"
  shows "\<exists>out. convert_parquet_to_text_in_chunks L files lg parquet_file_path text_file_path file_type =
                 (Inr (), files(text_file_path \<mapsto> out), lg @ [Export_done text_file_path]) \<and>
               out = join_fields NL (map (\<lambda>b. strip_nl (to_csv sep b)) batches) \<and>
               (batches \<noteq> [] \<and> (\<forall>b\<in>set batches. b \<noteq> [] \<and> (\<forall>row\<in>set b. row \<noteq> [])) \<longrightarrow>
                  out = join_fields NL (map (render_row sep) (concat batches)) \<and>
                  int (count_char NL out) =
                    int (length (concat batches)) - 1 +
                    int (\<Sum>row\<leftarrow>concat batches. \<Sum>c\<leftarrow>row. count_char NL (cell_text c)) \<and>
                  out \<noteq> [] \<and> last out \<noteq> NL)"
proof -
  let ?out = "write_batches sep True batches []"
  have sep: "sep \<noteq> NL" using assms(3) by (rule export_sep_not_NL)
  have run: "convert_parquet_to_text_in_chunks L files lg parquet_file_path text_file_path file_type =
             (Inr (), files(text_file_path \<mapsto> ?out), lg @ [Export_done text_file_path])"
    using assms by (simp add: convert_parquet_to_text_in_chunks_def)
  have rest: "?out = join_fields NL (map (render_row sep) (concat batches)) \<and>
              int (count_char NL ?out) =
                int (length (concat batches)) - 1 +
                int (\<Sum>row\<leftarrow>concat batches. \<Sum>c\<leftarrow>row. count_char NL (cell_text c)) \<and>
              ?out \<noteq> [] \<and> last ?out \<noteq> NL"
    if ne: "batches \<noteq> []" and good: "\<forall>b\<in>set batches. b \<noteq> [] \<and> (\<forall>row\<in>set b. row \<noteq> [])"
  proof -
    have rows: "concat batches \<noteq> []" using ne good by (cases batches) auto
    have cols: "\<forall>row\<in>set (concat batches). row \<noteq> []" using good by auto
    have eq: "?out = join_fields NL (map (render_row sep) (concat batches))"
      using write_batches_lines [OF sep ne good] .
    have "int (count_char NL ?out) =
            int (length (concat batches)) - 1 +
            int (\<Sum>row\<leftarrow>concat batches. \<Sum>c\<leftarrow>row. count_char NL (cell_text c))"
      using lines_newlines(1) [OF sep rows cols] eq by simp
    moreover have "?out \<noteq> []" "last ?out \<noteq> NL"
      using lines_newlines(2,3) [OF sep rows cols] eq by simp_all
    ultimately show ?thesis using eq by simp
  qed
  show ?thesis
    using run rest write_batches_first [of sep batches] by (intro exI [of _ ?out]) blast
qed

theorem export_newline_count_witness:
  "fst (snd (convert_parquet_to_text_in_chunks
       (idle_libs\<lparr>parquet_open := (\<lambda>stored. Inr \<lparr>pq_schema = \<lparr>sch_fields = [], sch_metadata = []\<rparr>,
                                                  pq_row_groups = [], pq_closed = True\<rparr>),
                  iter_batches := (\<lambda>pf n. [[[Some ''1'', Some ''a,b'']], [[Some ''2'', None], [Some ''3'', Some ''c'']]])\<rparr>)
       [''compress/a.parquet'' \<mapsto> ''PAR1''] [] ''compress/a.parquet'' ''decompress/a.csv'' ''csv''))
     ''decompress/a.csv'' = Some (''1,'' @ DQ # ''a,b'' @ DQ # ''\<newline>2,\<newline>3,c'')"
proof -
  let ?L = "idle_libs\<lparr>parquet_open := (\<lambda>stored. Inr \<lparr>pq_schema = \<lparr>sch_fields = [], sch_metadata = []\<rparr>,
                                                  pq_row_groups = [], pq_closed = True\<rparr>),
                  iter_batches := (\<lambda>pf n. [[[Some ''1'', Some ''a,b'']], [[Some ''2'', None], [Some ''3'', Some ''c'']]])\<rparr>"
  let ?batches = "[[[Some ''1'', Some ''a,b'']], [[Some ''2'', None], [Some ''3'', Some ''c'']]]"
  have 1: "[''compress/a.parquet'' \<mapsto> ''PAR1''] ''compress/a.parquet'' = Some ''PAR1''" by simp
  have 2: "parquet_open ?L ''PAR1'' = Inr \<lparr>pq_schema = \<lparr>sch_fields = [], sch_metadata = []\<rparr>,
                                                  pq_row_groups = [], pq_closed = True\<rparr>" by simp
  have 3: "export_sep ''csv'' = Inr (CHR '','')" by (simp add: export_sep_def)
  have 4: "iter_batches ?L \<lparr>pq_schema = \<lparr>sch_fields = [], sch_metadata = []\<rparr>,
                                                  pq_row_groups = [], pq_closed = True\<rparr> 50000 = ?batches" by simp
  have 5: "?batches \<noteq> [] \<and> (\<forall>b\<in>set ?batches. b \<noteq> [] \<and> (\<forall>row\<in>set b. row \<noteq> []))"
    by simp
  have r: "join_fields NL (map (render_row (CHR '','')) (concat ?batches)) = ''1,'' @ DQ # ''a,b'' @ DQ # ''\<newline>2,\<newline>3,c''"
    by code_simp
  from export_newline_count [where L = ?L and files = "[''compress/a.parquet'' \<mapsto> ''PAR1'']"
         and parquet_file_path = "''compress/a.parquet''" and stored = "''PAR1''"
         and file_type = "''csv''" and sep = "CHR '',''" and batches = ?batches
         and lg = "[]" and text_file_path = "''decompress/a.csv''", OF 1 2 3 4] 5 r
  show ?thesis by auto
qed

text \<open>
  The claim as stated fails for a field that holds a newline: the field is written in
  quotes with its newline, so a container of one row is exported with one newline.
\<close>

theorem embedded_newline_is_exported:
  "write_batches (CHR ''|'') True [[[Some ''x\<newline>y'', Some ''z'']]] [] =
     DQ # ''x\<newline>y'' @ DQ # ''|z'' \<and>
   int (count_char NL (write_batches (CHR ''|'') True [[[Some ''x\<newline>y'', Some ''z'']]] [])) \<noteq>
   int (length (concat [[[Some ''x\<newline>y'', Some ''z'']]])) - 1"
  by code_simp

section \<open>Properties of the converter\<close>

text \<open>
  The schema the writer gets is the one derived from the renamed first chunk; the file
  type reaches only the schema that the second assignment discards.
\<close>

lemma get_field_index_fields:
  "get_field_index \<lparr>sch_fields = F, sch_metadata = md\<rparr> name =
   get_field_index \<lparr>sch_fields = F, sch_metadata = md'\<rparr> name"
  by (simp add: get_field_index_def)

lemma hint_fields_metadata:
  "hint_fields fs \<lparr>sch_fields = F, sch_metadata = md\<rparr> =
     (case hint_fields fs \<lparr>sch_fields = F, sch_metadata = md'\<rparr> of
        Inl e \<Rightarrow> Inl e
      | Inr s \<Rightarrow> Inr (s\<lparr>sch_metadata := md\<rparr>))"
proof (induction fs arbitrary: F)
  case Nil
  show ?case by simp
next
  case (Cons f rest)
  show ?case
  proof (cases "f_type f = Arrow_string")
    case False
    then show ?thesis using Cons.IH [of F] by simp
  next
    case True
    show ?thesis
    proof (cases "get_field_index \<lparr>sch_fields = F, sch_metadata = md'\<rparr> (f_name f)")
      case None
      then show ?thesis using True get_field_index_fields [of F md "f_name f" md'] by simp
    next
      case (Some i)
      then show ?thesis
        using True get_field_index_fields [of F md "f_name f" md']
          Cons.IH [of "F[i := f\<lparr>f_metadata := [(''compression'', ''ZSTD'')]\<rparr>]"]
        by simp
    qed
  qed
qed

lemma writer_schema_result:
  "writer_schema L first_chunk file_type = Inr s \<Longrightarrow> s = schema_from_pandas L (rename_columns first_chunk)"
  by (auto simp: writer_schema_def Let_def split: sum.splits)

lemma writer_schema_ignores_file_type:
  "writer_schema L first_chunk file_type = writer_schema L first_chunk file_type'"
proof -
  let ?F = "sch_fields (schema_from_pandas L first_chunk)"
  have "hint_fields ?F \<lparr>sch_fields = ?F, sch_metadata = [(''original_extension'', file_type)]\<rparr> =
        (case hint_fields ?F \<lparr>sch_fields = ?F, sch_metadata = [(''original_extension'', file_type')]\<rparr> of
           Inl e \<Rightarrow> Inl e | Inr s \<Rightarrow> Inr (s\<lparr>sch_metadata := [(''original_extension'', file_type)]\<rparr>))"
    by (rule hint_fields_metadata)
  then show ?thesis
    by (simp add: writer_schema_def Let_def with_metadata_def schema_from_pandas_def split: sum.splits)
qed

lemma write_table_keeps:
  "write_table L pf chunk = Inr pf' \<Longrightarrow> pq_schema pf' = pq_schema pf"
  by (auto simp: write_table_def split: if_splits)

lemma write_chunks_keeps:
  "write_chunks L output_file pf files lg rest = (Inr pf', files', lg') \<Longrightarrow> pq_schema pf' = pq_schema pf"
proof (induction L output_file pf files lg rest rule: write_chunks.induct)
  case (3 L output_file pf files lg chunk rest)
  from "3.prems" obtain pf1 where
      wt: "write_table L pf (rename_columns chunk) = Inr pf1"
    and wc: "write_chunks L output_file pf1 (files(output_file \<mapsto> parquet_bytes L pf1))
               (lg @ [Chunk_written (length (df_rows (rename_columns chunk)))]) rest = (Inr pf', files', lg')"
    by (auto simp: Let_def split: sum.splits)
  from "3.IH" [OF refl wt wc] write_table_keeps [OF wt] show ?case by simp
qed auto

text \<open>
  What a successful conversion leaves at the output path: a closed Parquet file whose
  schema metadata has the one key \<open>pandas\<close>.
\<close>

lemma written_container:
  assumes "convert_to_columnar_in_chunks L files lg chunk_iterator output_file file_type = (Inr (), files', lg')"
  shows "\<exists>pf. files' output_file = Some (parquet_bytes L pf) \<and> pq_closed pf \<and>
              map fst (sch_metadata (pq_schema pf)) = [''pandas''] \<and>
              map_of (sch_metadata (pq_schema pf)) ''original_extension'' = None"
proof -
  from assms have body: "columnar_body L files lg chunk_iterator output_file file_type = (Inr (), files', lg')"
    by (auto simp: convert_to_columnar_in_chunks_def split: prod.splits sum.splits)
  then obtain first_chunk rest where ci: "chunk_iterator = Inr first_chunk # rest"
    by (auto simp: columnar_body_def split: list.splits sum.splits)
  from body ci obtain schema where ws: "writer_schema L first_chunk file_type = Inr schema"
    by (auto simp: columnar_body_def split: sum.splits)
  let ?pf0 = "\<lparr>pq_schema = schema, pq_row_groups = [], pq_closed = False\<rparr>"
  from body ci ws obtain pf1 where wt: "write_table L ?pf0 (rename_columns first_chunk) = Inr pf1"
    by (auto simp: columnar_body_def Let_def split: sum.splits)
  from body ci ws wt obtain pf2 files2 lg2 where
      wc: "write_chunks L output_file pf1
             ((files(output_file \<mapsto> parquet_bytes L ?pf0))(output_file \<mapsto> parquet_bytes L pf1))
             (lg @ [Schema_initialised]) rest = (Inr pf2, files2, lg2)"
    and fin: "files' = files2(output_file \<mapsto> parquet_bytes L (pf2\<lparr>pq_closed := True\<rparr>))"
    by (auto simp: columnar_body_def Let_def split: sum.splits prod.splits)
  have "pq_schema pf2 = schema_from_pandas L (rename_columns first_chunk)"
    using write_chunks_keeps [OF wc] write_table_keeps [OF wt] writer_schema_result [OF ws] by simp
  then have "sch_metadata (pq_schema (pf2\<lparr>pq_closed := True\<rparr>)) =
             [(''pandas'', pandas_metadata L (rename_columns first_chunk))]"
    by (simp add: schema_from_pandas_def)
  then show ?thesis using fin
    by (intro exI [of _ "pf2\<lparr>pq_closed := True\<rparr>"]) (simp add: schema_from_pandas_def)
qed

text \<open>
  C2, the original extension is read back from the container's metadata. Whenever
  \<open>convert_to_columnar_in_chunks\<close> succeeds, for any file type, the file it has written
  is a closed Parquet file whose schema metadata has no key \<open>original_extension\<close>, so
  the lookup of \<open>decompressmain\<close>, \<open>metadata.get(b'original_extension', b'tbl')\<close>,
  yields \<open>tbl\<close>: for \<open>csv\<close> and \<open>txt\<close> the extension is not recovered.
\<close>

theorem original_extension_not_written:
  assumes "convert_to_columnar_in_chunks L files lg chunk_iterator output_file file_type = (Inr (), files', lg')"
  shows "\<exists>pf. files' output_file = Some (parquet_bytes L pf) \<and> pq_closed pf \<and>
              map fst (sch_metadata (pq_schema pf)) = [''pandas''] \<and>
              map_of (sch_metadata (pq_schema pf)) ''original_extension'' = None \<and>
              metadata_get (sch_metadata (pq_schema pf)) ''original_extension'' ''tbl'' = ''tbl''"
proof -
  from written_container [OF assms] obtain pf where
    "files' output_file = Some (parquet_bytes L pf)" "pq_closed pf"
    "map fst (sch_metadata (pq_schema pf)) = [''pandas'']"
    "map_of (sch_metadata (pq_schema pf)) ''original_extension'' = None"
    by (elim exE conjE)
  then show ?thesis by (intro exI [of _ pf]) (simp add: metadata_get_def)
qed

lemma col_names_2: "col_names 2 = [''col_0'', ''col_1'']"
  by code_simp

theorem original_extension_not_written_witness:
  "\<forall>L. \<exists>pf. fst (snd (convert_to_columnar_in_chunks L Map.empty []
                 [Inr \<lparr>df_columns = [(''col_0'', Category), (''col_1'', Category)],
                       df_rows = [[Some ''a'', Some ''b'']]\<rparr>]
                 ''compress/a.parquet'' ''csv'')) ''compress/a.parquet'' = Some (parquet_bytes L pf) \<and>
            metadata_get (sch_metadata (pq_schema pf)) ''original_extension'' ''tbl'' = ''tbl''"
proof
  fix L
  let ?r = "convert_to_columnar_in_chunks L Map.empty []
                 [Inr \<lparr>df_columns = [(''col_0'', Category), (''col_1'', Category)],
                       df_rows = [[Some ''a'', Some ''b'']]\<rparr>]
                 ''compress/a.parquet'' ''csv''"
  have "fst ?r = Inr ()"
    by (simp add: convert_to_columnar_in_chunks_def columnar_body_def writer_schema_def
          schema_from_pandas_def with_metadata_def arrow_type_of_def rename_columns_def
          write_table_def schema_shape_def col_names_2 Let_def)
  then have "?r = (Inr (), fst (snd ?r), snd (snd ?r))"
    by (metis prod.collapse)
  from original_extension_not_written [OF this] show "\<exists>pf. fst (snd ?r) ''compress/a.parquet'' = Some (parquet_bytes L pf) \<and>
            metadata_get (sch_metadata (pq_schema pf)) ''original_extension'' ''tbl'' = ''tbl''"
    by blast
qed


text \<open>
  With a Parquet library that reads back what it wrote, the extension \<open>decompressmain\<close>
  reads from a converted file is \<open>tbl\<close>, whatever type the file was converted with.
\<close>

lemma original_extension_read_back:
  assumes "convert_to_columnar_in_chunks L files lg chunk_iterator output_file file_type = (Inr (), files', lg')"
      and "\<And>pf. parquet_open L (parquet_bytes L pf) = Inr pf"
  shows "read_original_ext L files' output_file = Inr ''tbl''"
proof -
  from written_container [OF assms(1)] obtain pf where
    "files' output_file = Some (parquet_bytes L pf)"
    "map_of (sch_metadata (pq_schema pf)) ''original_extension'' = None"
    "map fst (sch_metadata (pq_schema pf)) = [''pandas'']"
    by (elim exE conjE)
  then show ?thesis using assms(2)
    by (auto simp: read_original_ext_def metadata_get_def Let_def)
qed

section \<open>Properties of the pipeline\<close>

text \<open>
  C1, exporting the container made from a valid text gives the text back. A CSV file
  of three lines with two fields each is not converted at all: the inference raises
  (the unassigned \<open>num_columns\<close>, as for C3), \<open>compressmain\<close> logs the failure, and no
  container, archive or other file is written.
\<close>

theorem csv_file_is_not_converted:
  "compressmain L [''t.csv''] ([''data/t.csv'' \<mapsto> ''a,b\<newline>c,d\<newline>e,f\<newline>''], [], st) =
     ([''data/t.csv'' \<mapsto> ''a,b\<newline>c,d\<newline>e,f\<newline>''],
      [Processing ''t.csv'',
       Parse_failed ''data/t.csv'' (UnboundLocalError ''num_columns''),
       File_failed ''t.csv'' (UnboundLocalError ''num_columns'')],
      st)"
proof -
  have rd: "read_file_data_in_chunks L [''data/t.csv'' \<mapsto> ''a,b\<newline>c,d\<newline>e,f\<newline>'']
              [Processing ''t.csv''] ''data/t.csv'' ''csv'' =
            (Inl (UnboundLocalError ''num_columns''),
             [Processing ''t.csv'', Parse_failed ''data/t.csv'' (UnboundLocalError ''num_columns'')])"
    by code_simp
  have names: "path_join data_dir ''t.csv'' = ''data/t.csv''" "file_type_of ''t.csv'' = ''csv''"
    "endswith ''t.csv'' ''.csv''"
    by code_simp+
  show ?thesis
    by (simp add: compressmain_def compress_one_def names rd Let_def)
qed

text \<open>
  The two converters themselves keep the rows: with libraries that read back what was
  written and deliver the stored rows in non-empty batches, exporting the file that a
  successful conversion wrote gives the lines of the chunks' rows, in order, joined by
  single newlines (for rows with a column).
\<close>

lemma write_table_rows:
  "write_table L pf chunk = Inr pf' \<Longrightarrow> pq_row_groups pf' = pq_row_groups pf @ [df_rows chunk]"
  by (auto simp: write_table_def split: if_splits)

lemma write_chunks_rows:
  "write_chunks L output_file pf files lg rest = (Inr pf', files', lg') \<Longrightarrow>
   \<exists>dfs. rest = map Inr dfs \<and> pq_row_groups pf' = pq_row_groups pf @ map df_rows dfs"
proof (induction L output_file pf files lg rest rule: write_chunks.induct)
  case (1 L output_file pf files lg)
  then show ?case by (intro exI [of _ "[]"]) simp
next
  case (2 L output_file pf files lg e rest)
  then show ?case by simp
next
  case (3 L output_file pf files lg chunk rest)
  from "3.prems" obtain pf1 where
      wt: "write_table L pf (rename_columns chunk) = Inr pf1"
    and wc: "write_chunks L output_file pf1 (files(output_file \<mapsto> parquet_bytes L pf1))
               (lg @ [Chunk_written (length (df_rows (rename_columns chunk)))]) rest = (Inr pf', files', lg')"
    by (auto simp: Let_def split: sum.splits)
  from "3.IH" [OF refl wt wc] obtain dfs where
    "rest = map Inr dfs" "pq_row_groups pf' = pq_row_groups pf1 @ map df_rows dfs" by blast
  then show ?case using write_table_rows [OF wt]
    by (intro exI [of _ "chunk # dfs"]) (simp add: rename_columns_def)
qed

lemma written_rows:
  assumes "convert_to_columnar_in_chunks L files lg chunk_iterator output_file file_type = (Inr (), files', lg')"
  shows "\<exists>pf dfs. chunk_iterator = map Inr dfs \<and> dfs \<noteq> [] \<and>
           files' output_file = Some (parquet_bytes L pf) \<and> pq_row_groups pf = map df_rows dfs"
proof -
  from assms have body: "columnar_body L files lg chunk_iterator output_file file_type = (Inr (), files', lg')"
    by (auto simp: convert_to_columnar_in_chunks_def split: prod.splits sum.splits)
  then obtain first_chunk rest where ci: "chunk_iterator = Inr first_chunk # rest"
    by (auto simp: columnar_body_def split: list.splits sum.splits)
  from body ci obtain schema where ws: "writer_schema L first_chunk file_type = Inr schema"
    by (auto simp: columnar_body_def split: sum.splits)
  let ?pf0 = "\<lparr>pq_schema = schema, pq_row_groups = [], pq_closed = False\<rparr>"
  from body ci ws obtain pf1 where wt: "write_table L ?pf0 (rename_columns first_chunk) = Inr pf1"
    by (auto simp: columnar_body_def Let_def split: sum.splits)
  from body ci ws wt obtain pf2 files2 lg2 where
      wc: "write_chunks L output_file pf1
             ((files(output_file \<mapsto> parquet_bytes L ?pf0))(output_file \<mapsto> parquet_bytes L pf1))
             (lg @ [Schema_initialised]) rest = (Inr pf2, files2, lg2)"
    and fin: "files' = files2(output_file \<mapsto> parquet_bytes L (pf2\<lparr>pq_closed := True\<rparr>))"
    by (auto simp: columnar_body_def Let_def split: sum.splits prod.splits)
  from write_chunks_rows [OF wc] obtain dfs where
    r: "rest = map Inr dfs" "pq_row_groups pf2 = pq_row_groups pf1 @ map df_rows dfs" by blast
  have "pq_row_groups pf1 = [df_rows first_chunk]"
    using write_table_rows [OF wt] by (simp add: rename_columns_def)
  then show ?thesis using ci r fin
    by (intro exI [of _ "pf2\<lparr>pq_closed := True\<rparr>"] exI [of _ "first_chunk # dfs"]) simp
qed

lemma rows_round_trip:
  assumes conv: "convert_to_columnar_in_chunks L files lg (map Inr dfs) parquet_path file_type = (Inr (), files', lg')"
      and reads: "\<And>pf. parquet_open L (parquet_bytes L pf) = Inr pf"
      and batches: "\<And>pf. concat (iter_batches L pf 50000) = concat (pq_row_groups pf) \<and>
                        [] \<notin> set (iter_batches L pf 50000)"
      and sep: "export_sep target_type = Inr sep"
      and rows: "concat (map df_rows dfs) \<noteq> []"
      and good: "\<forall>row\<in>set (concat (map df_rows dfs)). row \<noteq> []"
  shows "convert_parquet_to_text_in_chunks L files' lg' parquet_path text_path target_type =
           (Inr (),
            files'(text_path \<mapsto> join_fields NL (map (render_row sep) (concat (map df_rows dfs)))),
            lg' @ [Export_done text_path])"
proof -
  from written_rows [OF conv] obtain pf dfs' where
      m: "map Inr dfs = (map Inr dfs' :: (error + dataframe) list)"
    and f: "files' parquet_path = Some (parquet_bytes L pf)"
    and g: "pq_row_groups pf = map df_rows dfs'"
    by blast
  from m have "dfs' = dfs" by (simp add: inj_map_eq_map)
  with g have g': "pq_row_groups pf = map df_rows dfs" by simp
  let ?bs = "iter_batches L pf 50000"
  have c: "concat ?bs = concat (map df_rows dfs)"
    using batches [of pf] g' by simp
  have ne: "?bs \<noteq> []" using rows c by (metis concat.simps(1))
  have gb: "\<forall>b\<in>set ?bs. b \<noteq> [] \<and> (\<forall>row\<in>set b. row \<noteq> [])"
  proof
    fix b assume b: "b \<in> set ?bs"
    then have "b \<noteq> []" using batches [of pf] by metis
    moreover have "set b \<subseteq> set (concat ?bs)" using b by auto
    ultimately show "b \<noteq> [] \<and> (\<forall>row\<in>set b. row \<noteq> [])"
      using good c by auto
  qed
  have "write_batches sep True ?bs [] = join_fields NL (map (render_row sep) (concat ?bs))"
    using write_batches_lines [OF export_sep_not_NL [OF sep] ne gb] .
  then show ?thesis using f reads [of pf] sep c
    by (simp add: convert_parquet_to_text_in_chunks_def)
qed

text \<open>
  When the body of the conversion raises, the definition of \<open>main.py\<close> logs the
  exception without the file's name and returns as if it had succeeded.
\<close>

lemma conversion_error_is_swallowed:
  "columnar_body L files lg chunk_iterator output_file file_type = (Inl e, files1, lg1) \<Longrightarrow>
   convert_to_columnar_in_chunks_main L files lg chunk_iterator output_file file_type =
     (Inr (), files1, lg1 @ [Columnar_failed e])"
  by (simp add: convert_to_columnar_in_chunks_main_def)

text \<open>
  C7, a failing step is logged with the file and its cause, and no later step runs
  for that file. The file below has three fields in each line but the sixth, which
  has four; the sample (its third and fifth lines) gives three columns, and pandas
  raises its \<open>ParserError\<close> (expected 3 fields in line 6, saw 4) when the first chunk
  is asked for, inside the conversion. Whatever exception the iterator raises there,
  \<open>compressmain\<close> still calls \<open>compress_with_zstd\<close>: the log shows the conversion
  failure without the file's name, then the compression failing on the Parquet file
  that was never written, and the entry that names the file gives that second
  exception as the cause.
\<close>

theorem conversion_error_does_not_stop_the_file:
  assumes "read_csv L ''a|b|c\<newline>1|2|3\<newline>4|5|6\<newline>7|8|9\<newline>x|y|z\<newline>p|q|r|s\<newline>'' (CHR ''|'')
             [''col_0'', ''col_1'', ''col_2''] = Inr (Inl e # rest)"
  shows "compress_one L
           ([''data/a.tbl'' \<mapsto> ''a|b|c\<newline>1|2|3\<newline>4|5|6\<newline>7|8|9\<newline>x|y|z\<newline>p|q|r|s\<newline>''], [], st) ''a.tbl'' =
     ([''data/a.tbl'' \<mapsto> ''a|b|c\<newline>1|2|3\<newline>4|5|6\<newline>7|8|9\<newline>x|y|z\<newline>p|q|r|s\<newline>''],
      [Processing ''a.tbl'', Switch_separator (CHR ''|''), Stable_columns 3,
       Columnar_failed e,
       Compress_failed ''compress/a.parquet'' ''compress/a.zstd'' (FileNotFoundError ''compress/a.parquet''),
       File_failed ''a.tbl'' (FileNotFoundError ''compress/a.parquet'')],
      st)"
proof -
  have inf: "infer_schema [''data/a.tbl'' \<mapsto> ''a|b|c\<newline>1|2|3\<newline>4|5|6\<newline>7|8|9\<newline>x|y|z\<newline>p|q|r|s\<newline>'']
               [Processing ''a.tbl''] ''data/a.tbl'' =
      (Inr (CHR ''|'', [''col_0'', ''col_1'', ''col_2'']),
       [Processing ''a.tbl'', Switch_separator (CHR ''|''), Stable_columns 3])"
    by code_simp
  have names: "path_join data_dir ''a.tbl'' = ''data/a.tbl''" "file_type_of ''a.tbl'' = ''tbl''"
    "temp_parquet_of ''a.tbl'' = ''compress/a.parquet''" "compressed_file_of ''a.tbl'' = ''compress/a.zstd''"
    "endswith ''a.tbl'' ''.tbl''" "type_hint_sep ''tbl'' = Inr (CHR ''|'')"
    by code_simp+
  show ?thesis
    using assms
    by (simp add: compress_one_def names read_file_data_in_chunks_def inf
          convert_to_columnar_in_chunks_main_def columnar_body_def
          compress_with_zstd_main_def compress_stream_def Let_def)
qed

theorem conversion_error_does_not_stop_the_file_witness:
  "fst (snd (compress_one
       (idle_libs\<lparr>read_csv := (\<lambda>text sep names. Inr [Inl (LibraryError ''ParserError'')])\<rparr>)
       ([''data/a.tbl'' \<mapsto> ''a|b|c\<newline>1|2|3\<newline>4|5|6\<newline>7|8|9\<newline>x|y|z\<newline>p|q|r|s\<newline>''], [],
        \<lparr>total_original = 0, total_compressed = 0, file_count = 0\<rparr>) ''a.tbl'')) =
     [Processing ''a.tbl'', Switch_separator (CHR ''|''), Stable_columns 3,
      Columnar_failed (LibraryError ''ParserError''),
      Compress_failed ''compress/a.parquet'' ''compress/a.zstd'' (FileNotFoundError ''compress/a.parquet''),
      File_failed ''a.tbl'' (FileNotFoundError ''compress/a.parquet'')]"
  using conversion_error_does_not_stop_the_file
          [of "idle_libs\<lparr>read_csv := (\<lambda>text sep names. Inr [Inl (LibraryError ''ParserError'')])\<rparr>"
              "LibraryError ''ParserError''" "[]"
              "\<lparr>total_original = 0, total_compressed = 0, file_count = 0\<rparr>"]
  by simp

lemma col_names_3: "col_names (Suc (Suc (Suc 0))) = [''col_0'', ''col_1'', ''col_2'']"
  by code_simp

text \<open>
  When the iterator raises after the first chunk (a row with too many fields beyond
  the first 50000 rows), the Parquet file exists with one row group; it is compressed
  and removed, the file is logged as compressed and counted in the statistics, and no
  log entry names the file as failed.
\<close>

lemma conversion_error_reported_as_success:
  assumes inf: "infer_schema [''data/a.tbl'' \<mapsto> text] [Processing ''a.tbl''] ''data/a.tbl'' =
                  (Inr (sep, names), lg1)"
      and rd: "read_csv L text sep names = Inr (Inr chunk # Inl e # rest)"
      and ch: "chunk = \<lparr>df_columns = [(''col_0'', Category), (''col_1'', Category), (''col_2'', Category)],
                         df_rows = rows\<rparr>"
      and pf: "pf = \<lparr>pq_schema = schema_from_pandas L chunk, pq_row_groups = [rows], pq_closed = False\<rparr>"
      and ne: "parquet_bytes L pf \<noteq> []"
  shows "compress_one L ([''data/a.tbl'' \<mapsto> text], [],
                         \<lparr>total_original = 0, total_compressed = 0, file_count = 0\<rparr>) ''a.tbl'' =
     ([''data/a.tbl'' \<mapsto> text, ''compress/a.zstd'' \<mapsto> zstd_compress L (parquet_bytes L pf)],
      lg1 @ [Schema_initialised, Columnar_failed e,
             Compress_done (length (parquet_bytes L pf)),
             File_compressed ''compress/a.zstd'', File_time ''a.tbl''],
      \<lparr>total_original = length (parquet_bytes L pf),
       total_compressed = length (zstd_compress L (parquet_bytes L pf)),
       file_count = 1\<rparr>)"
proof -
  have names: "path_join data_dir ''a.tbl'' = ''data/a.tbl''" "file_type_of ''a.tbl'' = ''tbl''"
    "temp_parquet_of ''a.tbl'' = ''compress/a.parquet''" "compressed_file_of ''a.tbl'' = ''compress/a.zstd''"
    "endswith ''a.tbl'' ''.tbl''" "type_hint_sep ''tbl'' = Inr (CHR ''|'')"
    by code_simp+
  have ren: "rename_columns chunk = chunk"
    using ch by (simp add: rename_columns_def col_names_3)
  have dr: "df_rows chunk = rows" using ch by simp
  have ws: "writer_schema L chunk ''tbl'' = Inr (schema_from_pandas L chunk)"
    using ch ren by (simp add: writer_schema_def schema_from_pandas_def with_metadata_def arrow_type_of_def Let_def)
  have body: "columnar_body L [''data/a.tbl'' \<mapsto> text] lg1
        (Inr chunk # Inl e # rest) ''compress/a.parquet'' ''tbl'' =
      (Inl e, [''data/a.tbl'' \<mapsto> text, ''compress/a.parquet'' \<mapsto> parquet_bytes L pf],
       lg1 @ [Schema_initialised])"
    using pf dr by (simp add: columnar_body_def ws ren write_table_def Let_def)
  have cs: "compress_stream L 4194304000
        [''data/a.tbl'' \<mapsto> text, ''compress/a.parquet'' \<mapsto> parquet_bytes L pf]
        ''compress/a.parquet'' ''compress/a.zstd'' =
      (Inr (length (parquet_bytes L pf), length (zstd_compress L (parquet_bytes L pf))),
       [''data/a.tbl'' \<mapsto> text, ''compress/a.parquet'' \<mapsto> parquet_bytes L pf,
        ''compress/a.zstd'' \<mapsto> zstd_compress L (parquet_bytes L pf)])"
    by (simp add: compress_stream_def copy_chunks_all getsize_def Let_def)
  have rm: "([''data/a.tbl'' \<mapsto> text, ''compress/a.parquet'' \<mapsto> parquet_bytes L pf,
        ''compress/a.zstd'' \<mapsto> zstd_compress L (parquet_bytes L pf)])(''compress/a.parquet'' := None) =
       [''data/a.tbl'' \<mapsto> text, ''compress/a.zstd'' \<mapsto> zstd_compress L (parquet_bytes L pf)]"
    by (rule ext) simp
  show ?thesis
    using rd ne
    by (simp add: compress_one_def names read_file_data_in_chunks_def inf
          convert_to_columnar_in_chunks_main_def body
          compress_with_zstd_main_def cs os_remove_def rm Let_def)
qed

end
